theory Spec2Isabelle
  imports Main "HOL-Library.Word"
begin

section \<open>Python values used by the downloader\<close>

text \<open>
  Strings are HOL strings (a character is read as a code point below 256), byte strings
  are lists of 8-bit words.  Every place where the Python source could raise is a
  branch of the model: the only raising primitive the repository's own code uses is
  list indexing; the other errors are raised by the libraries it calls.
\<close>

type_synonym bytes = "8 word list"

datatype error = IndexError | ParserRejectedMarkup | RecursionError | LocationParseError | OSError

text \<open>\<^verbatim>\<open>xs[i]\<close>: negative indices count from the end, out of range raises.\<close>

definition index :: "'a list \<Rightarrow> int \<Rightarrow> error + 'a" where
  "index xs i =
     (if 0 \<le> i \<and> i < int (length xs) then Inr (xs ! nat i)
      else if i < 0 \<and> - i \<le> int (length xs) then Inr (xs ! nat (int (length xs) + i))
      else Inl IndexError)"

text \<open>\<^verbatim>\<open>s.startswith(p)\<close>\<close>

definition str_startswith :: "string \<Rightarrow> string \<Rightarrow> bool" where
  "str_startswith s p = (take (length p) s = p)"

text \<open>\<^verbatim>\<open>sub in s\<close>\<close>

fun str_contains :: "string \<Rightarrow> string \<Rightarrow> bool" where
  "str_contains sub [] = (sub = [])"
| "str_contains sub (c # s) = (str_startswith (c # s) sub \<or> str_contains sub s)"

text \<open>\<^verbatim>\<open>s.split(c)\<close> for a separator of one character.\<close>

fun str_split :: "char \<Rightarrow> string \<Rightarrow> string list" where
  "str_split c [] = [[]]"
| "str_split c (x # s) =
     (if x = c then [] # str_split c s
      else (case str_split c s of
              [] \<Rightarrow> [[x]]
            | p # ps \<Rightarrow> (x # p) # ps))"

text \<open>\<^verbatim>\<open>s.rstrip(c)\<close> for a set of one character.\<close>

definition str_rstrip :: "char \<Rightarrow> string \<Rightarrow> string" where
  "str_rstrip c s = rev (dropWhile (\<lambda>x. x = c) (rev s))"

text \<open>\<^verbatim>\<open>str.isspace\<close> on one character, and \<^verbatim>\<open>s.strip()\<close>.\<close>

definition isspace :: "char \<Rightarrow> bool" where
  "isspace c = ((of_char c :: nat) \<in> {9, 10, 11, 12, 13, 28, 29, 30, 31, 32, 133, 160})"

definition str_strip :: "string \<Rightarrow> string" where
  "str_strip s = rev (dropWhile isspace (rev (dropWhile isspace s)))"

section \<open>Domain entities\<close>

text \<open>\<^verbatim>\<open>domain/entities/midi_file.py\<close>, \<^verbatim>\<open>domain/entities/game.py\<close>\<close>

record midi_file =
  name :: string
  url :: string
  game_name :: string
  system :: string
  size_bytes :: int
  downloaded :: bool

record game =
  name :: string
  url :: string
  system :: string
  midi_files :: "midi_file list"

text \<open>
  \<^verbatim>\<open>MidiFile.filename\<close>: the \<^verbatim>\<open>[-1]\<close> is an unguarded index, so the property
  returns a result or raises.
\<close>

definition filename :: "midi_file \<Rightarrow> error + string" where
  "filename m =
     (if midi_file.url m \<noteq> [] then index (str_split CHR ''/'' (midi_file.url m)) (- 1)
      else Inr (midi_file.name m @ ''.mid''))"

definition mark_downloaded :: "midi_file \<Rightarrow> midi_file" where
  "mark_downloaded m = m\<lparr>downloaded := True\<rparr>"

text \<open>
  The spec's wording of the derived filename: the substring after the last
  \<^verbatim>\<open>/\<close> of a string (all of it when it has none).
\<close>

definition final_segment :: "string \<Rightarrow> string" where
  "final_segment s = rev (takeWhile (\<lambda>c. c \<noteq> CHR ''/'') (rev s))"

section \<open>Parsed HTML\<close>

text \<open>
  The document tree BeautifulSoup builds: a tag with its name, its attributes and its
  children; a text node; and the other string nodes (comments, declarations), which
  \<^verbatim>\<open>.text\<close> leaves out.  The soup itself is a tag.  The parser that builds the tree
  from the page text is the library's; the model takes it as a parameter.
\<close>

datatype node =
    Tag string "(string \<times> string) list" "node list"
  | NavigableString string
  | Comment string

text \<open>All nodes below a node, in document order (\<^verbatim>\<open>.descendants\<close>).\<close>

fun descendants :: "node \<Rightarrow> node list" where
  "descendants (Tag n a cs) = concat (map (\<lambda>c. c # descendants c) cs)"
| "descendants (NavigableString s) = []"
| "descendants (Comment s) = []"

fun is_tag :: "string \<Rightarrow> node \<Rightarrow> bool" where
  "is_tag n (Tag n' a cs) = (n' = n)"
| "is_tag n (NavigableString s) = False"
| "is_tag n (Comment s) = False"

text \<open>\<^verbatim>\<open>tag.find_all(name)\<close> and \<^verbatim>\<open>tag.find(name)\<close> (the first match or None).\<close>

definition find_all :: "string \<Rightarrow> node \<Rightarrow> node list" where
  "find_all n t = filter (is_tag n) (descendants t)"

definition find_tag :: "string \<Rightarrow> node \<Rightarrow> node option" where
  "find_tag n t = (case find_all n t of [] \<Rightarrow> None | x # _ \<Rightarrow> Some x)"

text \<open>\<^verbatim>\<open>tag.text\<close>: the text nodes below the tag, concatenated.\<close>

fun node_text :: "node \<Rightarrow> string" where
  "node_text (NavigableString s) = s"
| "node_text (Tag n a cs) = []"
| "node_text (Comment s) = []"

definition get_text_of :: "node \<Rightarrow> string" where
  "get_text_of t = concat (map node_text (descendants t))"

text \<open>
  \<^verbatim>\<open>tag.string\<close>: the single string child, looked for through single tag children;
  None when a tag on the way has no child or several.
\<close>

fun tag_string :: "node \<Rightarrow> string option" where
  "tag_string (Tag n a [c]) = tag_string c"
| "tag_string (Tag n a cs) = None"
| "tag_string (NavigableString s) = Some s"
| "tag_string (Comment s) = Some s"

text \<open>\<^verbatim>\<open>tag.get(key, default)\<close>\<close>

fun attr_get :: "string \<Rightarrow> string \<Rightarrow> node \<Rightarrow> string" where
  "attr_get k d (Tag n a cs) = (case map_of a k of None \<Rightarrow> d | Some v \<Rightarrow> v)"
| "attr_get k d (NavigableString s) = d"
| "attr_get k d (Comment s) = d"

text \<open>
  \<^verbatim>\<open>soup.find('a', string=f)\<close>: the first \<^verbatim>\<open>a\<close> tag whose \<^verbatim>\<open>.string\<close> the
  function accepts.
\<close>

definition find_string :: "string \<Rightarrow> (string option \<Rightarrow> bool) \<Rightarrow> node \<Rightarrow> node option" where
  "find_string n f t =
     (case filter (\<lambda>x. f (tag_string x)) (find_all n t) of [] \<Rightarrow> None | x # _ \<Rightarrow> Some x)"

section \<open>The scraper\<close>

text \<open>\<^verbatim>\<open>infrastructure/scraping/khinsider_scraper.py\<close>\<close>

text \<open>The body of the loop over the rows in \<^verbatim>\<open>parse_game_list\<close>.\<close>

fun game_rows :: "string \<Rightarrow> node list \<Rightarrow> game list \<Rightarrow> error + game list" where
  "game_rows system_name [] games = Inr games"
| "game_rows system_name (row # rows) games =
     (let cells = find_all ''td'' row in
      if length cells \<ge> 2 then
        (case index cells 0 of
           Inl e \<Rightarrow> Inl e
         | Inr cell \<Rightarrow>
            (case find_tag ''a'' cell of
               None \<Rightarrow> game_rows system_name rows games
             | Some link \<Rightarrow>
                (let game_name = str_strip (get_text_of link);
                     game_url = attr_get ''href'' [] link;
                     game_url = (if str_startswith game_url ''/''
                                 then ''https://www.khinsider.com'' @ game_url
                                 else game_url)
                 in game_rows system_name rows
                      (games @ [\<lparr>game.name = game_name, url = game_url,
                                 system = system_name, midi_files = []\<rparr>]))))
      else game_rows system_name rows games)"

definition parse_game_list :: "(string \<Rightarrow> node) \<Rightarrow> string \<Rightarrow> string \<Rightarrow> error + game list" where
  "parse_game_list BeautifulSoup html_content system_name =
     (let soup = BeautifulSoup html_content in
      case find_tag ''table'' soup of
        None \<Rightarrow> Inr []
      | Some table \<Rightarrow> game_rows system_name (drop 1 (find_all ''tr'' table)) [])"

text \<open>The body of the loop over the rows in \<^verbatim>\<open>parse_midi_list\<close>.\<close>

fun midi_rows :: "string \<Rightarrow> string \<Rightarrow> node list \<Rightarrow> midi_file list \<Rightarrow> error + midi_file list" where
  "midi_rows gname system_name [] midis = Inr midis"
| "midi_rows gname system_name (row # rows) midis =
     (let cells = find_all ''td'' row in
      if length cells \<ge> 2 then
        (case index cells 0 of
           Inl e \<Rightarrow> Inl e
         | Inr cell \<Rightarrow>
            (case find_tag ''a'' cell of
               None \<Rightarrow> midi_rows gname system_name rows midis
             | Some link \<Rightarrow>
                (let midi_name = str_strip (get_text_of link);
                     midi_url = attr_get ''href'' [] link;
                     midi_url = (if str_startswith midi_url ''//''
                                 then ''https:'' @ midi_url
                                 else if str_startswith midi_url ''/''
                                 then ''https://www.khinsider.com'' @ midi_url
                                 else midi_url)
                 in if str_contains ''.mid'' midi_url
                    then midi_rows gname system_name rows
                           (midis @ [\<lparr>midi_file.name = midi_name, url = midi_url,
                                       game_name = gname, system = system_name,
                                       size_bytes = 0, downloaded = False\<rparr>])
                    else midi_rows gname system_name rows midis)))
      else midi_rows gname system_name rows midis)"

definition parse_midi_list ::
  "(string \<Rightarrow> node) \<Rightarrow> string \<Rightarrow> string \<Rightarrow> string \<Rightarrow> error + midi_file list" where
  "parse_midi_list BeautifulSoup html_content gname system_name =
     (let soup = BeautifulSoup html_content in
      case find_tag ''table'' soup of
        None \<Rightarrow> Inr []
      | Some table \<Rightarrow> midi_rows gname system_name (find_all ''tr'' table) [])"

text \<open>The function passed as \<^verbatim>\<open>string=\<close> in \<^verbatim>\<open>parse_midi_download_url\<close>.\<close>

fun download_text :: "string option \<Rightarrow> bool" where
  "download_text None = False"
| "download_text (Some t) = (t \<noteq> [] \<and> str_contains ''Click here to download'' t)"

definition parse_midi_download_url :: "(string \<Rightarrow> node) \<Rightarrow> string \<Rightarrow> string option" where
  "parse_midi_download_url BeautifulSoup html_content =
     (let soup = BeautifulSoup html_content in
      case find_string ''a'' download_text soup of
        Some download_link \<Rightarrow>
          (let u = attr_get ''href'' [] download_link;
               u = (if str_startswith u ''//'' then ''https:'' @ u else u)
           in Some u)
      | None \<Rightarrow> None)"

section \<open>The world outside the program\<close>

text \<open>
  What the program changes and what it reads from outside: the regular files on disk by
  path, the URLs requested from the site so far (oldest first) and the lines printed.
  The wall clock that \<^verbatim>\<open>_rate_limit\<close> reads and the progress bar are not part of the
  model.
\<close>

record world =
  files :: "string \<rightharpoonup> bytes"
  requests :: "string list"
  stdout :: "string list"

text \<open>
  What the \<^verbatim>\<open>try\<close> block of \<^verbatim>\<open>KhinsiderClient.get\<close> ends with: the body of the
  response, or a \<^verbatim>\<open>RequestException\<close> (raised by the session after its retries, or
  by \<^verbatim>\<open>raise_for_status\<close>) with its message.  These are the two outcomes the
  source provides for; what else the session can raise is added in the section on the
  exceptions the source lets through.
\<close>

datatype http_outcome = Content bytes | RequestException string

text \<open>
  What the \<^verbatim>\<open>try\<close> block of \<^verbatim>\<open>save_file\<close> ends with: the file written, or an
  exception with its message, the file then left as it was (None) or holding what
  was written before the failure.
\<close>

datatype write_outcome = Written | WriteFailed string "bytes option"

text \<open>
  The collaborators the code calls and does not define, each a function of the world
  at the time of the call: the HTML parser, UTF-8 decoding that ignores errors, the
  HTTP session, the two \<^verbatim>\<open>pathlib\<close> operations that can fail (a message when they
  do), and the path join \<^verbatim>\<open>output_dir / filename\<close>.
\<close>

record env =
  BeautifulSoup :: "string \<Rightarrow> node"
  decode :: "bytes \<Rightarrow> string"
  session_get :: "world \<Rightarrow> string \<Rightarrow> http_outcome"
  write_bytes :: "world \<Rightarrow> string \<Rightarrow> bytes \<Rightarrow> write_outcome"
  mkdir :: "world \<Rightarrow> string \<Rightarrow> string option"
  joinpath :: "string \<Rightarrow> string \<Rightarrow> string"

section \<open>The HTTP client\<close>

text \<open>\<^verbatim>\<open>infrastructure/http/khinsider_client.py\<close>\<close>

definition get :: "env \<Rightarrow> string \<Rightarrow> world \<Rightarrow> bytes option \<times> world" where
  "get E u w =
     (let w1 = w\<lparr>requests := requests w @ [u]\<rparr> in
      case session_get E w u of
        Content c \<Rightarrow> (Some c, w1)
      | RequestException e \<Rightarrow>
          (None, w1\<lparr>stdout := stdout w1 @ [''Request failed for '' @ u @ '': '' @ e]\<rparr>))"

definition get_text :: "env \<Rightarrow> string \<Rightarrow> world \<Rightarrow> string option \<times> world" where
  "get_text E u w =
     (case get E u w of
        (Some c, w1) \<Rightarrow> if c \<noteq> [] then (Some (decode E c), w1) else (None, w1)
      | (None, w1) \<Rightarrow> (None, w1))"

section \<open>The file system repository\<close>

text \<open>\<^verbatim>\<open>infrastructure/storage/file_system_repository.py\<close>\<close>

definition save_file :: "env \<Rightarrow> bytes \<Rightarrow> string \<Rightarrow> world \<Rightarrow> bool \<times> world" where
  "save_file E c file_path w =
     (case write_bytes E w file_path c of
        Written \<Rightarrow> (True, w\<lparr>files := (files w)(file_path \<mapsto> c)\<rparr>)
      | WriteFailed e left \<Rightarrow>
          (False,
           w\<lparr>files := (case left of None \<Rightarrow> files w | Some b \<Rightarrow> (files w)(file_path \<mapsto> b)),
             stdout := stdout w @ [''Failed to save file '' @ file_path @ '': '' @ e]\<rparr>))"

definition file_exists :: "string \<Rightarrow> world \<Rightarrow> bool" where
  "file_exists file_path w = (files w file_path \<noteq> None)"

definition create_directory :: "env \<Rightarrow> string \<Rightarrow> world \<Rightarrow> bool \<times> world" where
  "create_directory E dir_path w =
     (case mkdir E w dir_path of
        None \<Rightarrow> (True, w)
      | Some e \<Rightarrow>
          (False, w\<lparr>stdout := stdout w @ [''Failed to create directory '' @ dir_path @ '': '' @ e]\<rparr>))"

section \<open>The catalogue repository\<close>

text \<open>\<^verbatim>\<open>infrastructure/storage/khinsider_repository_impl.py\<close>\<close>

text \<open>
  The second loop of \<^verbatim>\<open>get_midi_files_for_game\<close>: the entries are updated in place,
  so the model returns the list with each entry as the loop leaves it.
\<close>

fun resolve_urls :: "env \<Rightarrow> midi_file list \<Rightarrow> world \<Rightarrow> midi_file list \<times> world" where
  "resolve_urls E [] w = ([], w)"
| "resolve_urls E (midi # rest) w =
     (let (detail_html, w1) = get_text E (midi_file.url midi) w;
          midi' =
            (case detail_html of
               None \<Rightarrow> midi
             | Some h \<Rightarrow>
                 if h \<noteq> [] then
                   (case parse_midi_download_url (BeautifulSoup E) h of
                      None \<Rightarrow> midi
                    | Some download_url \<Rightarrow>
                        if download_url \<noteq> [] then midi\<lparr>midi_file.url := download_url\<rparr>
                        else midi)
                 else midi);
          (rest', w2) = resolve_urls E rest w1
      in (midi' # rest', w2))"

text \<open>The two names read off the URL, each index guarded as in the source.\<close>

definition url_game_name :: "string \<Rightarrow> error + string" where
  "url_game_name game_url =
     (let parts = str_split CHR ''/'' (str_rstrip CHR ''/'' game_url) in
      if length parts > 0 then index parts (- 1) else Inr ''unknown'')"

definition url_system_name :: "string \<Rightarrow> error + string" where
  "url_system_name game_url =
     (let parts = str_split CHR ''/'' (str_rstrip CHR ''/'' game_url) in
      if length parts > 1 then index parts (- 2) else Inr ''unknown'')"

definition get_midi_files_for_game ::
  "env \<Rightarrow> string \<Rightarrow> world \<Rightarrow> (error + midi_file list) \<times> world" where
  "get_midi_files_for_game E game_url w =
     (case get_text E game_url w of
        (None, w1) \<Rightarrow> (Inr [], w1)
      | (Some html, w1) \<Rightarrow>
          if html = [] then (Inr [], w1)
          else
            (case url_game_name game_url of
               Inl e \<Rightarrow> (Inl e, w1)
             | Inr gname \<Rightarrow>
                (case url_system_name game_url of
                   Inl e \<Rightarrow> (Inl e, w1)
                 | Inr system_name \<Rightarrow>
                    (case parse_midi_list (BeautifulSoup E) html gname system_name of
                       Inl e \<Rightarrow> (Inl e, w1)
                     | Inr midi_list \<Rightarrow>
                         (let (resolved, w2) = resolve_urls E midi_list w1
                          in (Inr resolved, w2))))))"

section \<open>The per-game download\<close>

text \<open>\<^verbatim>\<open>application/use_cases/download_game_use_case.py\<close>\<close>

text \<open>
  The loop of \<^verbatim>\<open>execute\<close> over the listed files, with the list \<^verbatim>\<open>downloaded\<close> as
  accumulator.
\<close>

fun download_files ::
  "env \<Rightarrow> string \<Rightarrow> bool \<Rightarrow> midi_file list \<Rightarrow> midi_file list \<Rightarrow> world
   \<Rightarrow> (error + midi_file list) \<times> world" where
  "download_files E output_dir resume [] acc w = (Inr acc, w)"
| "download_files E output_dir resume (midi # rest) acc w =
     (case filename midi of
        Inl e \<Rightarrow> (Inl e, w)
      | Inr fname \<Rightarrow>
         (let file_path = joinpath E output_dir fname in
          if resume \<and> file_exists file_path w
          then download_files E output_dir resume rest (acc @ [mark_downloaded midi]) w
          else
            (case get E (midi_file.url midi) w of
               (None, w1) \<Rightarrow> download_files E output_dir resume rest acc w1
             | (Some c, w1) \<Rightarrow>
                 if c \<noteq> [] then
                   (case save_file E c file_path w1 of
                      (True, w2) \<Rightarrow>
                        download_files E output_dir resume rest
                          (acc @ [mark_downloaded (midi\<lparr>size_bytes := int (length c)\<rparr>)]) w2
                    | (False, w2) \<Rightarrow> download_files E output_dir resume rest acc w2)
                 else download_files E output_dir resume rest acc w1)))"

definition execute ::
  "env \<Rightarrow> string \<Rightarrow> string \<Rightarrow> bool \<Rightarrow> world \<Rightarrow> (error + midi_file list) \<times> world" where
  "execute E game_url output_dir resume w =
     (case get_midi_files_for_game E game_url w of
        (Inl e, w1) \<Rightarrow> (Inl e, w1)
      | (Inr midi_list, w1) \<Rightarrow>
          if midi_list = []
          then (Inr [], w1\<lparr>stdout := stdout w1 @ [''No MIDI files found for this game.'']\<rparr>)
          else
            (let (created, w2) = create_directory E output_dir w1
             in download_files E output_dir resume midi_list [] w2))"

text \<open>
  One pass of that loop on its own: what the pass adds to \<^verbatim>\<open>downloaded\<close>, if
  anything, and the world it leaves.  The loop is this pass, file after file
  (\<^verbatim>\<open>download_files_Cons\<close> below).
\<close>

definition download_one ::
  "env \<Rightarrow> string \<Rightarrow> bool \<Rightarrow> midi_file \<Rightarrow> world \<Rightarrow> (error + midi_file option) \<times> world" where
  "download_one E output_dir resume midi w =
     (case filename midi of
        Inl e \<Rightarrow> (Inl e, w)
      | Inr fname \<Rightarrow>
         (let file_path = joinpath E output_dir fname in
          if resume \<and> file_exists file_path w then (Inr (Some (mark_downloaded midi)), w)
          else
            (case get E (midi_file.url midi) w of
               (None, w1) \<Rightarrow> (Inr None, w1)
             | (Some c, w1) \<Rightarrow>
                 if c \<noteq> [] then
                   (case save_file E c file_path w1 of
                      (True, w2) \<Rightarrow>
                        (Inr (Some (mark_downloaded (midi\<lparr>size_bytes := int (length c)\<rparr>))), w2)
                    | (False, w2) \<Rightarrow> (Inr None, w2))
                 else (Inr None, w1))))"

section \<open>Exceptions the source lets through\<close>

text \<open>
  The definitions above follow the source on the outcomes it provides for.  The
  libraries it calls can also raise what no \<^verbatim>\<open>except\<close> clause of the source catches,
  and the source then lets the exception through to its caller:
  \<^item> \<^verbatim>\<open>BeautifulSoup(html, 'html.parser')\<close> rejects some markup
    (\<^verbatim>\<open>ParserRejectedMarkup\<close>, for the text \<^verbatim>\<open><![x]\<close>);
  \<^item> \<^verbatim>\<open>Tag.string\<close> calls itself once for each tag nested as an only child and fails
    beyond the interpreter's recursion limit (\<^verbatim>\<open>RecursionError\<close>);
  \<^item> the session re-raises errors of \<^verbatim>\<open>urllib3\<close> that are no
    \<^verbatim>\<open>RequestException\<close> (\<^verbatim>\<open>LocationParseError\<close>, for a host with a label of more
    than 63 characters), which \<^verbatim>\<open>except RequestException\<close> does not catch;
  \<^item> \<^verbatim>\<open>Path.exists\<close> re-raises errors of the operating system (\<^verbatim>\<open>OSError\<close>, for a
    name that is too long), and \<^verbatim>\<open>file_exists\<close> has no \<^verbatim>\<open>try\<close>.
  What the libraries raise is a parameter: the markup the parser rejects, the frames
  left for \<^verbatim>\<open>Tag.string\<close>, and the requests and paths on which the session and the
  file system raise.  The definitions below follow the same source lines as the ones
  above, with these outcomes as branches.
\<close>

record faults =
  rejected :: "string \<Rightarrow> bool"
  recursion_limit :: nat
  session_raises :: "world \<Rightarrow> string \<Rightarrow> error option"
  exists_raises :: "world \<Rightarrow> string \<Rightarrow> error option"

text \<open>
  \<^verbatim>\<open>tag.string\<close> with a bound on the frames: one frame for the tag, and one for each
  tag reached through an only child.
\<close>

fun tag_string_exn :: "nat \<Rightarrow> node \<Rightarrow> error + string option" where
  "tag_string_exn 0 t = Inl RecursionError"
| "tag_string_exn (Suc k) (Tag n a [Tag n' a' cs]) = tag_string_exn k (Tag n' a' cs)"
| "tag_string_exn (Suc k) t = Inr (tag_string t)"

text \<open>The frames \<^verbatim>\<open>tag.string\<close> needs on a node.\<close>

fun string_depth :: "node \<Rightarrow> nat" where
  "string_depth (Tag n a [Tag n' a' cs]) = Suc (string_depth (Tag n' a' cs))"
| "string_depth t = 1"

text \<open>
  \<^verbatim>\<open>find\<close> with a \<^verbatim>\<open>string=\<close> function over the tags of the wanted name, in
  document order: the first tag whose \<^verbatim>\<open>.string\<close> the function accepts.
\<close>

fun find_string_exn ::
  "nat \<Rightarrow> (string option \<Rightarrow> bool) \<Rightarrow> node list \<Rightarrow> error + node option" where
  "find_string_exn k f [] = Inr None"
| "find_string_exn k f (x # xs) =
     (case tag_string_exn k x of
        Inl e \<Rightarrow> Inl e
      | Inr s \<Rightarrow> if f s then Inr (Some x) else find_string_exn k f xs)"

text \<open>
  The three parsers, with the HTML parser \<^verbatim>\<open>B\<close>: the first statement of each builds
  the soup and can raise.
\<close>

definition parse_game_list_exn ::
  "faults \<Rightarrow> (string \<Rightarrow> node) \<Rightarrow> string \<Rightarrow> string \<Rightarrow> error + game list" where
  "parse_game_list_exn F B html_content system_name =
     (if rejected F html_content then Inl ParserRejectedMarkup
      else parse_game_list B html_content system_name)"

definition parse_midi_list_exn ::
  "faults \<Rightarrow> (string \<Rightarrow> node) \<Rightarrow> string \<Rightarrow> string \<Rightarrow> string \<Rightarrow> error + midi_file list" where
  "parse_midi_list_exn F B html_content gname system_name =
     (if rejected F html_content then Inl ParserRejectedMarkup
      else parse_midi_list B html_content gname system_name)"

definition parse_midi_download_url_exn ::
  "faults \<Rightarrow> (string \<Rightarrow> node) \<Rightarrow> string \<Rightarrow> error + string option" where
  "parse_midi_download_url_exn F B html_content =
     (if rejected F html_content then Inl ParserRejectedMarkup
      else
        (let soup = B html_content in
         case find_string_exn (recursion_limit F) download_text (find_all ''a'' soup) of
           Inl e \<Rightarrow> Inl e
         | Inr (Some download_link) \<Rightarrow>
             (let u = attr_get ''href'' [] download_link;
                  u = (if str_startswith u ''//'' then ''https:'' @ u else u)
              in Inr (Some u))
         | Inr None \<Rightarrow> Inr None))"

text \<open>The client: what \<^verbatim>\<open>except RequestException\<close> does not catch leaves \<^verbatim>\<open>get\<close>.\<close>

definition get_exn ::
  "faults \<Rightarrow> env \<Rightarrow> string \<Rightarrow> world \<Rightarrow> (error + bytes option) \<times> world" where
  "get_exn F E u w =
     (case session_raises F w u of
        Some e \<Rightarrow> (Inl e, w\<lparr>requests := requests w @ [u]\<rparr>)
      | None \<Rightarrow> (let (content, w1) = get E u w in (Inr content, w1)))"

definition get_text_exn ::
  "faults \<Rightarrow> env \<Rightarrow> string \<Rightarrow> world \<Rightarrow> (error + string option) \<times> world" where
  "get_text_exn F E u w =
     (case get_exn F E u w of
        (Inl e, w1) \<Rightarrow> (Inl e, w1)
      | (Inr (Some c), w1) \<Rightarrow> if c \<noteq> [] then (Inr (Some (decode E c)), w1) else (Inr None, w1)
      | (Inr None, w1) \<Rightarrow> (Inr None, w1))"

text \<open>\<^verbatim>\<open>file_exists\<close>: \<^verbatim>\<open>file_path.exists() and file_path.is_file()\<close>, outside any \<^verbatim>\<open>try\<close>.\<close>

definition file_exists_exn :: "faults \<Rightarrow> string \<Rightarrow> world \<Rightarrow> error + bool" where
  "file_exists_exn F file_path w =
     (case exists_raises F w file_path of
        Some e \<Rightarrow> Inl e
      | None \<Rightarrow> Inr (file_exists file_path w))"

text \<open>The repository: the second loop of \<^verbatim>\<open>get_midi_files_for_game\<close> and the method.\<close>

fun resolve_urls_exn ::
  "faults \<Rightarrow> env \<Rightarrow> midi_file list \<Rightarrow> world \<Rightarrow> (error + midi_file list) \<times> world" where
  "resolve_urls_exn F E [] w = (Inr [], w)"
| "resolve_urls_exn F E (midi # rest) w =
     (case get_text_exn F E (midi_file.url midi) w of
        (Inl e, w1) \<Rightarrow> (Inl e, w1)
      | (Inr detail_html, w1) \<Rightarrow>
          (case (case detail_html of
                   None \<Rightarrow> Inr midi
                 | Some h \<Rightarrow>
                     if h \<noteq> [] then
                       (case parse_midi_download_url_exn F (BeautifulSoup E) h of
                          Inl e \<Rightarrow> Inl e
                        | Inr None \<Rightarrow> Inr midi
                        | Inr (Some download_url) \<Rightarrow>
                            if download_url \<noteq> []
                            then Inr (midi\<lparr>midi_file.url := download_url\<rparr>)
                            else Inr midi)
                     else Inr midi) of
             Inl e \<Rightarrow> (Inl e, w1)
           | Inr midi' \<Rightarrow>
               (case resolve_urls_exn F E rest w1 of
                  (Inl e, w2) \<Rightarrow> (Inl e, w2)
                | (Inr rest', w2) \<Rightarrow> (Inr (midi' # rest'), w2))))"

definition get_midi_files_for_game_exn ::
  "faults \<Rightarrow> env \<Rightarrow> string \<Rightarrow> world \<Rightarrow> (error + midi_file list) \<times> world" where
  "get_midi_files_for_game_exn F E game_url w =
     (case get_text_exn F E game_url w of
        (Inl e, w1) \<Rightarrow> (Inl e, w1)
      | (Inr None, w1) \<Rightarrow> (Inr [], w1)
      | (Inr (Some html), w1) \<Rightarrow>
          if html = [] then (Inr [], w1)
          else
            (case url_game_name game_url of
               Inl e \<Rightarrow> (Inl e, w1)
             | Inr gname \<Rightarrow>
                (case url_system_name game_url of
                   Inl e \<Rightarrow> (Inl e, w1)
                 | Inr system_name \<Rightarrow>
                    (case parse_midi_list_exn F (BeautifulSoup E) html gname system_name of
                       Inl e \<Rightarrow> (Inl e, w1)
                     | Inr midi_list \<Rightarrow> resolve_urls_exn F E midi_list w1))))"

text \<open>The use case: the loop of \<^verbatim>\<open>execute\<close> and the method.\<close>

fun download_files_exn ::
  "faults \<Rightarrow> env \<Rightarrow> string \<Rightarrow> bool \<Rightarrow> midi_file list \<Rightarrow> midi_file list \<Rightarrow> world
   \<Rightarrow> (error + midi_file list) \<times> world" where
  "download_files_exn F E output_dir resume [] acc w = (Inr acc, w)"
| "download_files_exn F E output_dir resume (midi # rest) acc w =
     (case filename midi of
        Inl e \<Rightarrow> (Inl e, w)
      | Inr fname \<Rightarrow>
         (let file_path = joinpath E output_dir fname in
          case (if resume then file_exists_exn F file_path w else Inr False) of
            Inl e \<Rightarrow> (Inl e, w)
          | Inr True \<Rightarrow>
              download_files_exn F E output_dir resume rest (acc @ [mark_downloaded midi]) w
          | Inr False \<Rightarrow>
              (case get_exn F E (midi_file.url midi) w of
                 (Inl e, w1) \<Rightarrow> (Inl e, w1)
               | (Inr None, w1) \<Rightarrow> download_files_exn F E output_dir resume rest acc w1
               | (Inr (Some c), w1) \<Rightarrow>
                   if c \<noteq> [] then
                     (case save_file E c file_path w1 of
                        (True, w2) \<Rightarrow>
                          download_files_exn F E output_dir resume rest
                            (acc @ [mark_downloaded (midi\<lparr>size_bytes := int (length c)\<rparr>)]) w2
                      | (False, w2) \<Rightarrow> download_files_exn F E output_dir resume rest acc w2)
                   else download_files_exn F E output_dir resume rest acc w1)))"

definition execute_exn ::
  "faults \<Rightarrow> env \<Rightarrow> string \<Rightarrow> string \<Rightarrow> bool \<Rightarrow> world
   \<Rightarrow> (error + midi_file list) \<times> world" where
  "execute_exn F E game_url output_dir resume w =
     (case get_midi_files_for_game_exn F E game_url w of
        (Inl e, w1) \<Rightarrow> (Inl e, w1)
      | (Inr midi_list, w1) \<Rightarrow>
          if midi_list = []
          then (Inr [], w1\<lparr>stdout := stdout w1 @ [''No MIDI files found for this game.'']\<rparr>)
          else
            (let (created, w2) = create_directory E output_dir w1
             in download_files_exn F E output_dir resume midi_list [] w2))"

text \<open>
  Libraries that raise nothing of the kind on a site: no markup is rejected, no request
  and no path raises, and no anchor of a page nests tags deeper than the frames left.
\<close>

definition fault_free :: "faults \<Rightarrow> env \<Rightarrow> bool" where
  "fault_free F E =
     ((\<forall>h. \<not> rejected F h) \<and>
      (\<forall>w u. session_raises F w u = None) \<and>
      (\<forall>w p. exists_raises F w p = None) \<and>
      (\<forall>h. \<forall>x\<in>set (find_all ''a'' (BeautifulSoup E h)). string_depth x \<le> recursion_limit F))"

section \<open>The specification's wording\<close>

text \<open>
  The one rule of URL normalisation: a leading \<^verbatim>\<open>//\<close> becomes \<^verbatim>\<open>https:\<close> plus the
  rest, a leading \<^verbatim>\<open>/\<close> is prefixed with the site, anything else is unchanged.
\<close>

definition normalize_url :: "string \<Rightarrow> string" where
  "normalize_url h =
     (if str_startswith h ''//'' then ''https:'' @ h
      else if str_startswith h ''/'' then ''https://www.khinsider.com'' @ h
      else h)"

text \<open>
  The per-row rule of the listings: the anchor of a row is the first anchor of its
  first cell, for a row that has at least two cells.
\<close>

definition row_anchor :: "node \<Rightarrow> node option" where
  "row_anchor row = (case find_all ''td'' row of c # _ # _ \<Rightarrow> find_tag ''a'' c | _ \<Rightarrow> None)"

text \<open>
  The Game of a row of a game list: named by the stripped text of the anchor, its URL
  the href, with the site put before a leading slash.
\<close>

definition game_of_row :: "string \<Rightarrow> node \<Rightarrow> game option" where
  "game_of_row system_name row =
     map_option
       (\<lambda>link. \<lparr>game.name = str_strip (get_text_of link),
                 url = (let h = attr_get ''href'' [] link in
                        if str_startswith h ''/'' then ''https://www.khinsider.com'' @ h else h),
                 system = system_name, midi_files = []\<rparr>)
       (row_anchor row)"

text \<open>
  The MidiFile of a row of a file list: the same, with the normalised href as URL, and
  only when that URL contains \<^verbatim>\<open>.mid\<close>.
\<close>

definition midi_of_row :: "string \<Rightarrow> string \<Rightarrow> node \<Rightarrow> midi_file option" where
  "midi_of_row gname system_name row =
     (case row_anchor row of
        None \<Rightarrow> None
      | Some link \<Rightarrow>
          if str_contains ''.mid'' (normalize_url (attr_get ''href'' [] link))
          then Some \<lparr>midi_file.name = str_strip (get_text_of link),
                     url = normalize_url (attr_get ''href'' [] link),
                     game_name = gname, system = system_name,
                     size_bytes = 0, downloaded = False\<rparr>
          else None)"

section \<open>A small site to run the code on\<close>

text \<open>
  A listing page with a header row, a file whose detail page resolves, a file whose
  detail page cannot be fetched and a link that is no MIDI file; and the detail page.
  The site answers the listing and the first detail page, fails on every other first
  request, and serves the second file when it is asked for it a second time.
\<close>

definition example_listing :: node where
  "example_listing =
     Tag ''[document]'' []
       [Tag ''table'' []
          [Tag ''tr'' [] [Tag ''th'' [] [NavigableString ''Song'']],
           Tag ''tr'' []
             [Tag ''td'' []
                [Tag ''a'' [(''href'', ''/midi/nes/zelda/intro.mid'')] [NavigableString '' Intro '']],
              Tag ''td'' [] [NavigableString ''12 KB'']],
           Tag ''tr'' []
             [Tag ''td'' []
                [Tag ''a'' [(''href'', ''//cdn.example/boss.mid'')] [NavigableString ''Boss'']],
              Tag ''td'' [] [NavigableString ''9 KB'']],
           Tag ''tr'' []
             [Tag ''td'' []
                [Tag ''a'' [(''href'', ''/midi/nes/zelda/readme'')] [NavigableString ''Notes'']],
              Tag ''td'' [] []]]]"

definition example_detail :: node where
  "example_detail =
     Tag ''[document]'' []
       [Tag ''p'' []
          [Tag ''a'' [(''href'', ''//cdn.example/files/intro.mid'')]
             [NavigableString ''Click here to download as MIDI'']]]"

definition example_env :: env where
  "example_env =
     \<lparr>BeautifulSoup = (\<lambda>h. if h = ''L'' then example_listing else example_detail),
      decode = (\<lambda>b. if b = [76] then ''L'' else ''D''),
      session_get =
        (\<lambda>w u. if u = ''https://www.khinsider.com/midi/nes/zelda/'' then Content [76]
               else if u = ''https://www.khinsider.com/midi/nes/zelda/intro.mid'' then Content [68]
               else if u = ''https://cdn.example/boss.mid'' \<and> u \<in> set (requests w)
               then Content [77, 84]
               else RequestException ''404''),
      write_bytes = (\<lambda>w p c. Written),
      mkdir = (\<lambda>w p. None),
      joinpath = (\<lambda>d f. d @ ''/'' @ f)\<rparr>"

definition example_world :: world where
  "example_world = \<lparr>files = Map.empty, requests = [], stdout = []\<rparr>"

text \<open>The same world after an earlier run left the first file in \<^verbatim>\<open>out\<close>.\<close>

definition example_world_resumed :: world where
  "example_world_resumed =
     \<lparr>files = [''out/intro.mid'' \<mapsto> [77]], requests = [], stdout = []\<rparr>"

text \<open>A site that answers the listing and then sends empty bodies.\<close>

definition empty_body_env :: env where
  "empty_body_env =
     example_env\<lparr>session_get := (\<lambda>w u. if requests w = [] then Content [76] else Content [])\<rparr>"

text \<open>
  Two pages for the normalisation rule: a game list whose only data row links to
  \<^verbatim>\<open>//x/y.mid\<close>, and a detail page whose download link is \<^verbatim>\<open>/x/y.mid\<close>.
\<close>

definition protocol_relative_listing :: node where
  "protocol_relative_listing =
     Tag ''[document]'' []
       [Tag ''table'' []
          [Tag ''tr'' [] [Tag ''th'' [] [NavigableString ''Game'']],
           Tag ''tr'' []
             [Tag ''td'' [] [Tag ''a'' [(''href'', ''//x/y.mid'')] [NavigableString ''G'']],
              Tag ''td'' [] []]]]"

definition site_relative_detail :: node where
  "site_relative_detail =
     Tag ''[document]'' []
       [Tag ''a'' [(''href'', ''/x/y.mid'')] [NavigableString ''Click here to download'']]"

text \<open>
  What the libraries raise on the pages, requests and paths of the examples below: the
  parser rejects the text \<^verbatim>\<open><![x]\<close>, \<^verbatim>\<open>Tag.string\<close> has a thousand frames, the
  session raises on the URL whose host has a label of 64 characters, and the file
  system on a name of more than 255 characters.
\<close>

definition long_label_url :: string where
  "long_label_url = ''https://'' @ replicate 64 (CHR ''a'') @ ''.example/boss.mid''"

definition library_faults :: faults where
  "library_faults =
     \<lparr>rejected = (\<lambda>h. h = ''<![x]''),
      recursion_limit = 1000,
      session_raises = (\<lambda>w u. if u = long_label_url then Some LocationParseError else None),
      exists_raises = (\<lambda>w p. if length (final_segment p) > 255 then Some OSError else None)\<rparr>"

text \<open>Libraries that raise nothing.\<close>

definition no_faults :: faults where
  "no_faults =
     \<lparr>rejected = (\<lambda>h. False), recursion_limit = 1000,
      session_raises = (\<lambda>w u. None), exists_raises = (\<lambda>w p. None)\<rparr>"

text \<open>
  A node wrapped in \<^verbatim>\<open>k\<close> tags, each the only child of the next; and a detail page whose
  download anchor wraps its text in a thousand tags.
\<close>

definition nested :: "nat \<Rightarrow> node \<Rightarrow> node" where
  "nested k t = ((\<lambda>c. Tag ''b'' [] [c]) ^^ k) t"

definition deep_anchor_page :: node where
  "deep_anchor_page =
     Tag ''[document]'' []
       [Tag ''a'' [(''href'', ''//cdn.example/x.mid'')]
          [nested 1000 (NavigableString ''Click here to download'')]]"

text \<open>
  A game page whose first file is served from the host with the long label, on the
  example site; a file with that URL, the first file of the example site as listed, and
  a file whose name is too long for the file system.
\<close>

definition long_label_listing :: node where
  "long_label_listing =
     Tag ''[document]'' []
       [Tag ''table'' []
          [Tag ''tr'' []
             [Tag ''td'' []
                [Tag ''a'' [(''href'', ''//'' @ replicate 64 (CHR ''a'') @ ''.example/boss.mid'')]
                   [NavigableString ''Boss'']],
              Tag ''td'' [] [NavigableString ''9 KB'']],
           Tag ''tr'' []
             [Tag ''td'' []
                [Tag ''a'' [(''href'', ''/midi/nes/zelda/intro.mid'')] [NavigableString ''Intro'']],
              Tag ''td'' [] [NavigableString ''12 KB'']]]]"

definition long_label_env :: env where
  "long_label_env =
     example_env\<lparr>BeautifulSoup :=
                   (\<lambda>h. if h = ''L'' then long_label_listing else example_detail)\<rparr>"

definition long_label_file :: midi_file where
  "long_label_file =
     \<lparr>midi_file.name = ''Boss'', url = long_label_url, game_name = ''zelda'',
      system = ''nes'', size_bytes = 0, downloaded = False\<rparr>"

definition intro_file :: midi_file where
  "intro_file =
     \<lparr>midi_file.name = ''Intro'', url = ''https://www.khinsider.com/midi/nes/zelda/intro.mid'',
      game_name = ''zelda'', system = ''nes'', size_bytes = 0, downloaded = False\<rparr>"

definition long_name_file :: midi_file where
  "long_name_file =
     \<lparr>midi_file.name = ''Long'',
      url = ''https://cdn.example/'' @ replicate 300 (CHR ''a'') @ ''.mid'',
      game_name = ''zelda'', system = ''nes'', size_bytes = 0, downloaded = False\<rparr>"

section \<open>Facts about the string operations\<close>

lemma str_split_nonempty: "str_split c s \<noteq> []"
  by (induction s) (auto split: list.splits)

lemma length_str_split: "length (str_split c s) = Suc (length (filter (\<lambda>x. x = c) s))"
  by (induction s) (auto split: list.splits simp: str_split_nonempty)

lemma str_split_no_sep: "c \<notin> set s \<Longrightarrow> str_split c s = [s]"
  by (induction s) auto

lemma takeWhile_snoc_stop: "\<not> P x \<Longrightarrow> takeWhile P (ys @ [x]) = takeWhile P ys"
  by (induction ys) auto

lemma takeWhile_snoc_go:
  "P x \<Longrightarrow> takeWhile P (ys @ [x]) = (if \<forall>y\<in>set ys. P y then ys @ [x] else takeWhile P ys)"
  by (induction ys) auto

text \<open>The last piece of a split is what follows the last separator.\<close>

lemma last_str_split: "last (str_split c s) = rev (takeWhile (\<lambda>x. x \<noteq> c) (rev s))"
proof (induction s)
  case Nil
  then show ?case by simp
next
  case (Cons x s)
  show ?case
  proof (cases "x = c")
    case True
    then show ?thesis using Cons str_split_nonempty [of c s]
      by (simp add: takeWhile_snoc_stop)
  next
    case False
    show ?thesis
    proof (cases "c \<in> set s")
      case notin: False
      then have "\<forall>y\<in>set (rev s). y \<noteq> c" by auto
      with notin False show ?thesis
        by (simp add: str_split_no_sep takeWhile_snoc_go)
    next
      case isin: True
      then have "filter (\<lambda>x. x = c) s \<noteq> []"
        by (simp add: filter_empty_conv)
      then have "length (str_split c s) \<ge> 2"
        by (simp add: length_str_split Suc_le_eq)
      then obtain p q qs where sp: "str_split c s = p # q # qs"
        by (cases "str_split c s"; cases "tl (str_split c s)") auto
      from isin have "\<not> (\<forall>y\<in>set (rev s). y \<noteq> c)" by auto
      with False sp Cons show ?thesis
        by (simp add: takeWhile_snoc_go)
    qed
  qed
qed

lemma index_last: "xs \<noteq> [] \<Longrightarrow> index xs (- 1) = Inr (last xs)"
  by (cases xs rule: rev_cases) (auto simp: index_def nth_append)

text \<open>
  \<^verbatim>\<open>final_segment\<close> is the substring after the last slash: whatever stands before a
  slash is dropped, and a string without a slash is kept whole.
\<close>

lemma final_segment_after_slash:
  "CHR ''/'' \<notin> set t \<Longrightarrow> final_segment (p @ CHR ''/'' # t) = t"
  by (simp add: final_segment_def takeWhile_append)

lemma final_segment_no_slash: "CHR ''/'' \<notin> set s \<Longrightarrow> final_segment s = s"
proof -
  assume "CHR ''/'' \<notin> set s"
  then have eq: "takeWhile (\<lambda>c. c \<noteq> CHR ''/'') (rev s) = rev s"
    by auto
  show ?thesis unfolding final_segment_def eq by (rule rev_rev_ident)
qed

section \<open>The derived filename\<close>

text \<open>
  C8.  For every MidiFile the derived filename is computed without raising and is the
  final path segment of its URL, the substring after the last \<^verbatim>\<open>/\<close>; when the URL is
  the empty string it is the file's name followed by \<^verbatim>\<open>.mid\<close>.
\<close>

theorem filename_final_segment:
  "filename m =
     Inr (if midi_file.url m = [] then midi_file.name m @ ''.mid''
          else final_segment (midi_file.url m))"
  by (simp add: filename_def final_segment_def index_last str_split_nonempty last_str_split)

text \<open>The two examples of the specification.\<close>

theorem filename_final_segment_witness:
  "filename \<lparr>midi_file.name = ''Song'', url = ''https://x/y/Song%20Name.mid'',
             game_name = ''g'', system = ''s'', size_bytes = 0, downloaded = False\<rparr>
     = Inr ''Song%20Name.mid''
   \<and> filename \<lparr>midi_file.name = ''Intro'', url = [], game_name = ''g'',
               system = ''s'', size_bytes = 0, downloaded = False\<rparr>
     = Inr ''Intro.mid''"
  by (simp add: filename_final_segment final_segment_def)

lemma index_second_last:
  "length xs \<ge> 2 \<Longrightarrow> index xs (- 2) = Inr (xs ! (length xs - 2))"
  by (auto simp: index_def nat_diff_distrib')

section \<open>Game and system names\<close>

lemma url_game_name_eq:
  "url_game_name u = Inr (last (str_split CHR ''/'' (str_rstrip CHR ''/'' u)))"
  by (simp add: url_game_name_def Let_def index_last str_split_nonempty)

lemma url_system_name_eq:
  "url_system_name u =
     (let parts = str_split CHR ''/'' (str_rstrip CHR ''/'' u) in
      Inr (if length parts \<ge> 2 then parts ! (length parts - 2) else ''unknown''))"
  by (auto simp: url_system_name_def Let_def index_second_last)

text \<open>
  A split always has a last piece, so the guard of the game name never fails and its
  \<^verbatim>\<open>unknown\<close> is never used: the game name is what follows the last slash of the
  stripped URL, whatever the URL.  The guard of the system name fails only for a URL
  that has no slash left after the stripping.
\<close>

lemma url_game_name_final_segment:
  "url_game_name u = Inr (final_segment (str_rstrip CHR ''/'' u))"
  by (simp add: url_game_name_eq final_segment_def last_str_split)

lemma url_system_name_unknown_only_without_slash:
  "CHR ''/'' \<in> set (str_rstrip CHR ''/'' u) \<Longrightarrow>
   url_system_name u =
     Inr (str_split CHR ''/'' (str_rstrip CHR ''/'' u)
            ! (length (str_split CHR ''/'' (str_rstrip CHR ''/'' u)) - 2))"
proof -
  assume "CHR ''/'' \<in> set (str_rstrip CHR ''/'' u)"
  then have "filter (\<lambda>x. x = CHR ''/'') (str_rstrip CHR ''/'' u) \<noteq> []"
    by (simp add: filter_empty_conv)
  then have "length (str_split CHR ''/'' (str_rstrip CHR ''/'' u)) \<ge> 2"
    by (simp add: length_str_split Suc_le_eq)
  then show ?thesis by (simp add: url_system_name_eq Let_def)
qed

lemma midi_rows_names:
  "midi_rows g s rows acc = Inr ms \<Longrightarrow>
   \<forall>m\<in>set acc. game_name m = g \<and> midi_file.system m = s \<Longrightarrow>
   \<forall>m\<in>set ms. game_name m = g \<and> midi_file.system m = s"
proof (induction rows arbitrary: acc)
  case Nil
  then show ?case by simp
next
  case (Cons row rows)
  from Cons.prems show ?case
    by (auto simp: Let_def split: if_splits sum.splits option.splits dest!: Cons.IH)
qed

lemma parse_midi_list_names:
  "parse_midi_list B html g s = Inr ms \<Longrightarrow> m \<in> set ms \<Longrightarrow>
   game_name m = g \<and> midi_file.system m = s"
  using midi_rows_names [of g s _ "[]" ms]
  by (auto simp: parse_midi_list_def Let_def split: option.splits)

text \<open>Resolution touches the url field only, entry by entry.\<close>

lemma resolve_urls_frame:
  "resolve_urls E ms w = (ms', w') \<Longrightarrow>
   list_all2 (\<lambda>a b. b = a\<lparr>midi_file.url := midi_file.url b\<rparr>) ms ms'"
proof (induction ms arbitrary: w ms' w')
  case Nil
  then show ?case by simp
next
  case (Cons m ms)
  obtain h w1 where g: "get_text E (midi_file.url m) w = (h, w1)" by force
  obtain r w2 where r: "resolve_urls E ms w1 = (r, w2)" by force
  from Cons.IH [OF r] Cons.prems g r show ?case
    by (auto simp: Let_def split: option.splits if_splits)
qed

text \<open>Every file returned carries the two names read off the game URL.\<close>

lemma names_carried:
  assumes "get_midi_files_for_game E game_url w = (Inr ms, w')" and "m \<in> set ms"
  shows "url_game_name game_url = Inr (game_name m) \<and>
         url_system_name game_url = Inr (midi_file.system m)"
proof -
  obtain g where g: "url_game_name game_url = Inr g"
    by (simp add: url_game_name_eq)
  obtain s where s: "url_system_name game_url = Inr s"
    by (simp add: url_system_name_eq Let_def)
  from assms(2) have ne: "ms \<noteq> []" by auto
  with assms(1) obtain html w1 ml where
    p: "parse_midi_list (BeautifulSoup E) html g s = Inr ml"
    and rr: "resolve_urls E ml w1 = (ms, w')"
    by (auto simp: get_midi_files_for_game_def g s Let_def
        split: prod.splits option.splits if_splits sum.splits)
  from assms(2) obtain i where i: "i < length ms" "ms ! i = m"
    by (auto simp: in_set_conv_nth)
  have len: "length ml = length ms"
    using resolve_urls_frame [OF rr] by (rule list_all2_lengthD)
  have m: "m = (ml ! i)\<lparr>midi_file.url := midi_file.url m\<rparr>"
    using list_all2_nthD2 [OF resolve_urls_frame [OF rr] i(1)] i(2) by simp
  have a: "ml ! i \<in> set ml" using i(1) len by simp
  have "game_name m = game_name (ml ! i)" "midi_file.system m = midi_file.system (ml ! i)"
    by (subst m, simp)+
  with parse_midi_list_names [OF p a] g s show ?thesis by simp
qed

text \<open>
  C2.  The names are not the last two path segments with \<^verbatim>\<open>unknown\<close> for an absent
  one.  The code splits the whole stripped URL at the slashes, so the scheme, the empty
  piece after it and the host count as pieces, and the fallbacks it writes are out of
  reach for a URL with a scheme: \<^verbatim>\<open>len(parts) > 0\<close> holds of every split, and
  \<^verbatim>\<open>len(parts) > 1\<close> of every URL with a slash.  For the game URL
  \<^verbatim>\<open>https://www.khinsider.com/zelda\<close>, which has one path segment, the files carry the
  host as system name; for \<^verbatim>\<open>https://www.khinsider.com\<close>, which has none, the game
  name is the host and the system name the empty string.  The site of the last line
  answers every first request with the example listing.
\<close>

theorem names_fallback_missed:
  "url_game_name ''https://www.khinsider.com/zelda'' = Inr ''zelda''
   \<and> url_system_name ''https://www.khinsider.com/zelda'' = Inr ''www.khinsider.com''
   \<and> url_game_name ''https://www.khinsider.com'' = Inr ''www.khinsider.com''
   \<and> url_system_name ''https://www.khinsider.com'' = Inr []
   \<and> fst (get_midi_files_for_game empty_body_env ''https://www.khinsider.com/zelda''
            example_world)
       = Inr [\<lparr>midi_file.name = ''Intro'',
                url = ''https://www.khinsider.com/midi/nes/zelda/intro.mid'',
                game_name = ''zelda'', system = ''www.khinsider.com'',
                size_bytes = 0, downloaded = False\<rparr>,
              \<lparr>midi_file.name = ''Boss'', url = ''https://cdn.example/boss.mid'',
                game_name = ''zelda'', system = ''www.khinsider.com'',
                size_bytes = 0, downloaded = False\<rparr>]"
  by code_simp

section \<open>Resolution of the download URLs\<close>


lemma resolve_urls_append:
  "resolve_urls E (xs @ ys) w =
     (let (xs', w1) = resolve_urls E xs w; (ys', w2) = resolve_urls E ys w1
      in (xs' @ ys', w2))"
  by (induction xs arbitrary: w) (auto simp: Let_def split: prod.splits)

lemma length_resolve_urls: "resolve_urls E ms w = (ms', w') \<Longrightarrow> length ms' = length ms"
  by (drule resolve_urls_frame) (simp add: list_all2_lengthD)

lemma resolve_urls_nth_kept:
  assumes "i < length ml"
    and "get_text E (midi_file.url (ml ! i)) (snd (resolve_urls E (take i ml) w)) = (h, w2)"
    and "h = None \<or> (\<exists>t. h = Some t \<and> parse_midi_download_url (BeautifulSoup E) t = None)"
  shows "fst (resolve_urls E ml w) ! i = ml ! i"
proof -
  obtain pre wi where pre: "resolve_urls E (take i ml) w = (pre, wi)" by force
  have lp: "length pre = i"
    using length_resolve_urls [OF pre] assms(1) by simp
  obtain post w3 where post: "resolve_urls E (drop (Suc i) ml) w2 = (post, w3)" by force
  have one: "resolve_urls E (ml ! i # drop (Suc i) ml) wi = (ml ! i # post, w3)"
    using assms(2,3) pre post by (auto simp: Let_def split: option.splits)
  have "ml = take i ml @ ml ! i # drop (Suc i) ml"
    using assms(1) by (simp add: id_take_nth_drop)
  then have "resolve_urls E ml w = (pre @ ml ! i # post, w3)"
    using resolve_urls_append [of E "take i ml" "ml ! i # drop (Suc i) ml" w] pre one
    by simp
  with lp show ?thesis by (simp add: nth_append)
qed

text \<open>
  C4.  In the second phase of \<^verbatim>\<open>get_midi_files_for_game\<close> the returned list has the
  length and the order of the list \<^verbatim>\<open>parse_midi_list\<close> produced; each entry is the
  parsed entry with at most its \<^verbatim>\<open>url\<close> replaced (name, game name, system, size and
  downloaded flag are the parsed ones); and an entry whose detail page cannot be fetched,
  or has no download link, keeps the URL of the listing.  The detail page of entry
  \<^verbatim>\<open>i\<close> is fetched in the world the first \<^verbatim>\<open>i\<close> resolutions leave.
\<close>

theorem resolution_frame:
  assumes "get_text E game_url w = (Some html, w1)" and "html \<noteq> []"
    and "url_game_name game_url = Inr g" and "url_system_name game_url = Inr s"
    and "parse_midi_list (BeautifulSoup E) html g s = Inr ml"
  shows "\<exists>ms w'. get_midi_files_for_game E game_url w = (Inr ms, w') \<and>
           length ms = length ml \<and>
           (\<forall>i<length ml.
              ms ! i = (ml ! i)\<lparr>midi_file.url := midi_file.url (ms ! i)\<rparr> \<and>
              (let h = fst (get_text E (midi_file.url (ml ! i))
                              (snd (resolve_urls E (take i ml) w1)))
               in (h = None \<or>
                   (\<exists>t. h = Some t \<and> parse_midi_download_url (BeautifulSoup E) t = None))
                  \<longrightarrow> midi_file.url (ms ! i) = midi_file.url (ml ! i)))"
proof -
  obtain ms w' where r: "resolve_urls E ml w1 = (ms, w')" by force
  have res: "get_midi_files_for_game E game_url w = (Inr ms, w')"
    using assms r by (simp add: get_midi_files_for_game_def)
  have fr: "list_all2 (\<lambda>a b. b = a\<lparr>midi_file.url := midi_file.url b\<rparr>) ml ms"
    by (rule resolve_urls_frame [OF r])
  have len: "length ms = length ml"
    using fr by (simp add: list_all2_lengthD)
  have "ms ! i = (ml ! i)\<lparr>midi_file.url := midi_file.url (ms ! i)\<rparr>" if "i < length ml" for i
    using list_all2_nthD [OF fr that] .
  moreover have "midi_file.url (ms ! i) = midi_file.url (ml ! i)"
    if "i < length ml"
      and "fst (get_text E (midi_file.url (ml ! i)) (snd (resolve_urls E (take i ml) w1))) = None
           \<or> (\<exists>t. fst (get_text E (midi_file.url (ml ! i)) (snd (resolve_urls E (take i ml) w1)))
                     = Some t \<and> parse_midi_download_url (BeautifulSoup E) t = None)" for i
  proof -
    obtain h w2 where
      g: "get_text E (midi_file.url (ml ! i)) (snd (resolve_urls E (take i ml) w1)) = (h, w2)"
      by force
    from that(2) g
    have "h = None \<or> (\<exists>t. h = Some t \<and> parse_midi_download_url (BeautifulSoup E) t = None)"
      by simp
    from resolve_urls_nth_kept [OF that(1) g this] r show ?thesis by simp
  qed
  ultimately show ?thesis using res len by (auto simp: Let_def)
qed

text \<open>
  On the example site the detail page of the second file cannot be fetched, so the file
  keeps its listing URL.
\<close>

theorem resolution_frame_witness:
  "fst (get_text example_env ''https://www.khinsider.com/midi/nes/zelda/'' example_world) = Some ''L''
   \<and> url_game_name ''https://www.khinsider.com/midi/nes/zelda/'' = Inr ''zelda''
   \<and> url_system_name ''https://www.khinsider.com/midi/nes/zelda/'' = Inr ''nes''
   \<and> parse_midi_list (BeautifulSoup example_env) ''L'' ''zelda'' ''nes''
       = Inr [\<lparr>midi_file.name = ''Intro'', url = ''https://www.khinsider.com/midi/nes/zelda/intro.mid'',
                game_name = ''zelda'', system = ''nes'', size_bytes = 0, downloaded = False\<rparr>,
              \<lparr>midi_file.name = ''Boss'', url = ''https://cdn.example/boss.mid'',
                game_name = ''zelda'', system = ''nes'', size_bytes = 0, downloaded = False\<rparr>]
   \<and> (\<exists>ms w'. get_midi_files_for_game example_env ''https://www.khinsider.com/midi/nes/zelda/''
                    example_world = (Inr ms, w')
          \<and> length ms = 2
          \<and> ms ! 0 = \<lparr>midi_file.name = ''Intro'', url = midi_file.url (ms ! 0),
                        game_name = ''zelda'', system = ''nes'', size_bytes = 0, downloaded = False\<rparr>
          \<and> midi_file.url (ms ! 1) = ''https://cdn.example/boss.mid'')"
proof -
  let ?u = "''https://www.khinsider.com/midi/nes/zelda/''"
  let ?i = "\<lparr>midi_file.name = ''Intro'', url = ''https://www.khinsider.com/midi/nes/zelda/intro.mid'',
              game_name = ''zelda'', system = ''nes'', size_bytes = 0, downloaded = False\<rparr>"
  let ?b = "\<lparr>midi_file.name = ''Boss'', url = ''https://cdn.example/boss.mid'',
              game_name = ''zelda'', system = ''nes'', size_bytes = 0, downloaded = False\<rparr>"
  let ?w1 = "snd (get_text example_env ?u example_world)"
  have f: "fst (get_text example_env ?u example_world) = Some ''L''" by code_simp
  then have h1: "get_text example_env ?u example_world = (Some ''L'', ?w1)"
    by (simp add: prod_eq_iff)
  have h2: "''L'' \<noteq> []" by simp
  have h3: "url_game_name ?u = Inr ''zelda''" by code_simp
  have h4: "url_system_name ?u = Inr ''nes''" by code_simp
  have h5: "parse_midi_list (BeautifulSoup example_env) ''L'' ''zelda'' ''nes'' = Inr [?i, ?b]"
    by code_simp
  have failed: "fst (get_text example_env (midi_file.url ([?i, ?b] ! 1))
                   (snd (resolve_urls example_env (take 1 [?i, ?b]) ?w1))) = None"
    by code_simp
  from resolution_frame [OF h1 h2 h3 h4 h5] obtain ms w' where
    r: "get_midi_files_for_game example_env ?u example_world = (Inr ms, w')"
    and len: "length ms = length [?i, ?b]"
    and each: "\<forall>i<length [?i, ?b].
        ms ! i = ([?i, ?b] ! i)\<lparr>midi_file.url := midi_file.url (ms ! i)\<rparr> \<and>
        (let h = fst (get_text example_env (midi_file.url ([?i, ?b] ! i))
                        (snd (resolve_urls example_env (take i [?i, ?b]) ?w1)))
         in (h = None \<or>
             (\<exists>t. h = Some t \<and> parse_midi_download_url (BeautifulSoup example_env) t = None))
            \<longrightarrow> midi_file.url (ms ! i) = midi_file.url ([?i, ?b] ! i))"
    by blast
  from each [rule_format, of 1] failed have "midi_file.url (ms ! 1) = ''https://cdn.example/boss.mid''"
    by (simp add: Let_def)
  moreover from each [rule_format, of 0]
  have "ms ! 0 = \<lparr>midi_file.name = ''Intro'', url = midi_file.url (ms ! 0),
                    game_name = ''zelda'', system = ''nes'', size_bytes = 0, downloaded = False\<rparr>"
    by simp
  ultimately show ?thesis using f h3 h4 h5 r len by auto
qed

section \<open>The download loop\<close>


lemma download_files_Cons:
  "download_files E d r (m # ms) acc w =
     (case download_one E d r m w of
        (Inl e, w1) \<Rightarrow> (Inl e, w1)
      | (Inr None, w1) \<Rightarrow> download_files E d r ms acc w1
      | (Inr (Some m'), w1) \<Rightarrow> download_files E d r ms (acc @ [m']) w1)"
  by (simp add: download_one_def Let_def split: sum.splits prod.splits option.splits bool.splits)

lemma filename_Inr: "\<exists>f. filename m = Inr f"
  by (simp add: filename_def index_last str_split_nonempty)

lemma download_one_total: "\<exists>x w'. download_one E d r m w = (Inr x, w')"
  using filename_Inr [of m]
  by (auto simp: download_one_def Let_def split: prod.splits option.splits bool.splits)

lemma download_files_total: "\<exists>ds w'. download_files E d r ms acc w = (Inr ds, w')"
proof (induction ms arbitrary: acc w)
  case Nil
  then show ?case by simp
next
  case (Cons m ms)
  obtain x w1 where s: "download_one E d r m w = (Inr x, w1)"
    using download_one_total by blast
  show ?case
    using Cons.IH by (cases x) (simp_all only: download_files_Cons s prod.case sum.case option.case)
qed

lemma download_files_acc:
  "download_files E d r ms [] w = (Inr ds, w') \<Longrightarrow>
   download_files E d r ms acc w = (Inr (acc @ ds), w')"
proof (induction ms arbitrary: acc w ds w')
  case Nil
  then show ?case by simp
next
  case (Cons m ms)
  obtain x w1 where s: "download_one E d r m w = (Inr x, w1)"
    using download_one_total by blast
  show ?case
  proof (cases x)
    case None
    with Cons.prems s have "download_files E d r ms [] w1 = (Inr ds, w')"
      by (simp only: download_files_Cons prod.case sum.case option.case)
    from Cons.IH [OF this, of acc] None s show ?thesis
      by (simp only: download_files_Cons prod.case sum.case option.case)
  next
    case (Some m')
    obtain ds0 w0 where t: "download_files E d r ms [] w1 = (Inr ds0, w0)"
      using download_files_total by blast
    from Cons.prems s Some have "download_files E d r ms [m'] w1 = (Inr ds, w')"
      by (simp only: download_files_Cons prod.case sum.case option.case append_Nil)
    with Cons.IH [OF t, of "[m']"] have e: "ds = m' # ds0" "w' = w0" by simp_all
    from Cons.IH [OF t, of "acc @ [m']"] Some s e show ?thesis
      by (simp only: download_files_Cons prod.case sum.case option.case append_assoc append_Cons append_Nil)
  qed
qed

lemma download_files_append:
  "download_files E d r xs acc w = (Inr a, w1) \<Longrightarrow>
   download_files E d r (xs @ ys) acc w = download_files E d r ys a w1"
proof (induction xs arbitrary: acc w)
  case Nil
  then show ?case by simp
next
  case (Cons m xs)
  obtain x w2 where s: "download_one E d r m w = (Inr x, w2)"
    using download_one_total by blast
  show ?case
    using Cons.prems Cons.IH
    by (cases x) (simp_all add: download_files_Cons s del: download_files.simps)
qed

lemma download_files_split:
  assumes "download_files E d r pre [] w = (Inr ds1, w2)"
    and "download_one E d r m w2 = (Inr x, w3)"
    and "download_files E d r post [] w3 = (Inr ds2, w4)"
  shows "download_files E d r (pre @ m # post) [] w =
           (Inr (ds1 @ (case x of None \<Rightarrow> [] | Some m' \<Rightarrow> [m']) @ ds2), w4)"
proof -
  have "download_files E d r (pre @ m # post) [] w = download_files E d r (m # post) ds1 w2"
    by (rule download_files_append [OF assms(1)])
  also have "\<dots> = (Inr (ds1 @ (case x of None \<Rightarrow> [] | Some m' \<Rightarrow> [m']) @ ds2), w4)"
  proof (cases x)
    case None
    with assms(2) download_files_acc [OF assms(3), of ds1] show ?thesis
      by (simp only: download_files_Cons prod.case sum.case option.case append_Nil)
  next
    case (Some m')
    with assms(2) download_files_acc [OF assms(3), of "ds1 @ [m']"] show ?thesis
      by (simp only: download_files_Cons prod.case sum.case option.case append_assoc)
  qed
  finally show ?thesis .
qed

lemma get_files: "get E u w = (x, w') \<Longrightarrow> files w' = files w"
  by (auto simp: get_def Let_def split: http_outcome.splits)

lemma get_text_files: "get_text E u w = (x, w') \<Longrightarrow> files w' = files w"
  by (auto simp: get_text_def split: prod.splits option.splits if_splits dest: get_files)

lemma resolve_urls_files: "resolve_urls E ms w = (ms', w') \<Longrightarrow> files w' = files w"
proof (induction ms arbitrary: w ms' w')
  case Nil
  then show ?case by simp
next
  case (Cons m ms)
  obtain h w1 where g: "get_text E (midi_file.url m) w = (h, w1)" by force
  obtain r w2 where r: "resolve_urls E ms w1 = (r, w2)" by force
  from Cons.prems g r have "w' = w2" by (simp add: Let_def)
  with Cons.IH [OF r] get_text_files [OF g] show ?case by simp
qed

lemma get_midi_files_for_game_files:
  "get_midi_files_for_game E u w = (x, w') \<Longrightarrow> files w' = files w"
  by (auto simp: get_midi_files_for_game_def Let_def
      split: prod.splits option.splits if_splits sum.splits
      dest!: get_text_files resolve_urls_files)

lemma create_directory_files: "files (snd (create_directory E d w)) = files w"
  by (simp add: create_directory_def split: option.splits)

lemma save_file_keeps:
  "save_file E c p w = (b, w') \<Longrightarrow> file_exists q w \<Longrightarrow> file_exists q w'"
  by (auto simp: save_file_def file_exists_def split: write_outcome.splits option.splits)

lemma download_one_keeps:
  "download_one E d r m w = (x, w') \<Longrightarrow> file_exists q w \<Longrightarrow> file_exists q w'"
  by (auto simp: download_one_def Let_def file_exists_def [of q]
      split: sum.splits prod.splits option.splits if_splits bool.splits
      dest!: get_files save_file_keeps [where q = q, unfolded file_exists_def [of q]])

lemma download_files_keeps:
  "download_files E d r ms acc w = (x, w') \<Longrightarrow> file_exists q w \<Longrightarrow> file_exists q w'"
proof (induction ms arbitrary: acc w)
  case Nil
  then show ?case by simp
next
  case (Cons m ms)
  obtain y w1 where s: "download_one E d r m w = (Inr y, w1)"
    using download_one_total by blast
  have k: "file_exists q w1" by (rule download_one_keeps [OF s Cons.prems(2)])
  from Cons.prems(1) s show ?case
    by (cases y) (auto simp: download_files_Cons simp del: download_files.simps
        dest: Cons.IH [OF _ k])
qed

lemma execute_listing:
  "get_midi_files_for_game E u w = (Inr ms, w1) \<Longrightarrow> ms \<noteq> [] \<Longrightarrow>
   execute E u d r w = download_files E d r ms [] (snd (create_directory E d w1))"
  by (simp add: execute_def split_beta)

section \<open>Resume\<close>

text \<open>
  C5.  With resume on, a listed file whose derived filename is already a file of the
  output directory when \<^verbatim>\<open>execute\<close> starts is returned marked downloaded, at its
  place among the files that succeeded.  Its pass of the loop leaves the world as it
  finds it: no request is added to the client's log, nothing is written, and the files
  after it are processed in the very world the files before it left.
\<close>

theorem resume_skips_existing:
  assumes "get_midi_files_for_game E game_url w = (Inr (pre @ m # post), w1)"
    and "filename m = Inr fname"
    and "file_exists (joinpath E output_dir fname) w"
  shows "\<exists>ds1 w2 ds2 w3.
           download_files E output_dir True pre [] (snd (create_directory E output_dir w1))
             = (Inr ds1, w2) \<and>
           download_one E output_dir True m w2 = (Inr (Some (mark_downloaded m)), w2) \<and>
           download_files E output_dir True post [] w2 = (Inr ds2, w3) \<and>
           execute E game_url output_dir True w = (Inr (ds1 @ mark_downloaded m # ds2), w3)"
proof -
  let ?p = "joinpath E output_dir fname"
  let ?w = "snd (create_directory E output_dir w1)"
  obtain ds1 w2 where a: "download_files E output_dir True pre [] ?w = (Inr ds1, w2)"
    using download_files_total by blast
  obtain ds2 w3 where b: "download_files E output_dir True post [] w2 = (Inr ds2, w3)"
    using download_files_total by blast
  have "file_exists ?p w1"
    using assms(3) get_midi_files_for_game_files [OF assms(1)] by (simp add: file_exists_def)
  then have "file_exists ?p ?w"
    by (simp add: file_exists_def create_directory_files)
  then have "file_exists ?p w2"
    by (rule download_files_keeps [OF a])
  then have one: "download_one E output_dir True m w2 = (Inr (Some (mark_downloaded m)), w2)"
    by (simp add: download_one_def assms(2))
  have "execute E game_url output_dir True w
          = download_files E output_dir True (pre @ m # post) [] ?w"
    by (rule execute_listing [OF assms(1)]) simp
  also have "\<dots> = (Inr (ds1 @ mark_downloaded m # ds2), w3)"
    using download_files_split [OF a one b] by simp
  finally show ?thesis using a b one by blast
qed


text \<open>On the example site, after an earlier run left \<^verbatim>\<open>out/intro.mid\<close>.\<close>

theorem resume_skips_existing_witness:
  "fst (get_midi_files_for_game example_env ''https://www.khinsider.com/midi/nes/zelda/''
          example_world_resumed)
     = Inr ([] @ \<lparr>midi_file.name = ''Intro'', url = ''https://cdn.example/files/intro.mid'',
                     game_name = ''zelda'', system = ''nes'', size_bytes = 0, downloaded = False\<rparr>
              # [\<lparr>midi_file.name = ''Boss'', url = ''https://cdn.example/boss.mid'',
                     game_name = ''zelda'', system = ''nes'', size_bytes = 0, downloaded = False\<rparr>])
   \<and> filename \<lparr>midi_file.name = ''Intro'', url = ''https://cdn.example/files/intro.mid'',
                 game_name = ''zelda'', system = ''nes'', size_bytes = 0, downloaded = False\<rparr>
       = Inr ''intro.mid''
   \<and> file_exists (joinpath example_env ''out'' ''intro.mid'') example_world_resumed
   \<and> (\<exists>ds1 ds2 w3.
         execute example_env ''https://www.khinsider.com/midi/nes/zelda/'' ''out'' True
           example_world_resumed
         = (Inr (ds1 @ \<lparr>midi_file.name = ''Intro'', url = ''https://cdn.example/files/intro.mid'',
                        game_name = ''zelda'', system = ''nes'', size_bytes = 0, downloaded = True\<rparr>
                 # ds2), w3))"
proof -
  let ?u = "''https://www.khinsider.com/midi/nes/zelda/''"
  let ?i = "\<lparr>midi_file.name = ''Intro'', url = ''https://cdn.example/files/intro.mid'',
              game_name = ''zelda'', system = ''nes'', size_bytes = 0, downloaded = False\<rparr>"
  let ?b = "\<lparr>midi_file.name = ''Boss'', url = ''https://cdn.example/boss.mid'',
              game_name = ''zelda'', system = ''nes'', size_bytes = 0, downloaded = False\<rparr>"
  let ?w1 = "snd (get_midi_files_for_game example_env ?u example_world_resumed)"
  have f: "fst (get_midi_files_for_game example_env ?u example_world_resumed) = Inr ([] @ ?i # [?b])"
    by code_simp
  then have h1: "get_midi_files_for_game example_env ?u example_world_resumed
                   = (Inr ([] @ ?i # [?b]), ?w1)"
    by (simp add: prod_eq_iff)
  have h2: "filename ?i = Inr ''intro.mid''" by code_simp
  have h3: "file_exists (joinpath example_env ''out'' ''intro.mid'') example_world_resumed"
    by code_simp
  from resume_skips_existing [OF h1 h2 h3] obtain ds1 ds2 w3 where
    "execute example_env ?u ''out'' True example_world_resumed
       = (Inr (ds1 @ mark_downloaded ?i # ds2), w3)"
    by blast
  then have "\<exists>ds1 ds2 w3. execute example_env ?u ''out'' True example_world_resumed
       = (Inr (ds1 @ ?i\<lparr>downloaded := True\<rparr> # ds2), w3)"
    unfolding mark_downloaded_def by blast
  with f h2 h3 show ?thesis by simp
qed

section \<open>No index is out of range\<close>

lemma index_first: "xs \<noteq> [] \<Longrightarrow> index xs 0 = Inr (hd xs)"
  by (cases xs) (auto simp: index_def)

lemma midi_rows_total: "\<exists>ms. midi_rows g s rows acc = Inr ms"
proof (induction rows arbitrary: acc)
  case Nil
  then show ?case by simp
next
  case (Cons row rows)
  show ?case
  proof (cases "length (find_all ''td'' row) \<ge> 2")
    case True
    then have "index (find_all ''td'' row) 0 = Inr (hd (find_all ''td'' row))"
      by (intro index_first) auto
    with True Cons.IH show ?thesis
      by (auto simp: Let_def split: option.splits)
  next
    case False
    with Cons.IH show ?thesis by (simp add: Let_def)
  qed
qed

lemma game_rows_total: "\<exists>gs. game_rows s rows acc = Inr gs"
proof (induction rows arbitrary: acc)
  case Nil
  then show ?case by simp
next
  case (Cons row rows)
  show ?case
  proof (cases "length (find_all ''td'' row) \<ge> 2")
    case True
    then have "index (find_all ''td'' row) 0 = Inr (hd (find_all ''td'' row))"
      by (intro index_first) auto
    with True Cons.IH show ?thesis
      by (auto simp: Let_def split: option.splits)
  next
    case False
    with Cons.IH show ?thesis by (simp add: Let_def)
  qed
qed

lemma parse_midi_list_total: "\<exists>ms. parse_midi_list B html g s = Inr ms"
  using midi_rows_total by (auto simp: parse_midi_list_def Let_def split: option.splits)

lemma parse_game_list_total: "\<exists>gs. parse_game_list B html s = Inr gs"
  using game_rows_total by (auto simp: parse_game_list_def Let_def split: option.splits)

lemma get_midi_files_for_game_total:
  "\<exists>ms w'. get_midi_files_for_game E u w = (Inr ms, w')"
proof -
  obtain h w1 where g: "get_text E u w = (h, w1)" by force
  obtain ms where p: "parse_midi_list (BeautifulSoup E) (the h)
      (last (str_split CHR ''/'' (str_rstrip CHR ''/'' u)))
      (let parts = str_split CHR ''/'' (str_rstrip CHR ''/'' u) in
       if length parts \<ge> 2 then parts ! (length parts - 2) else ''unknown'') = Inr ms"
    using parse_midi_list_total by blast
  obtain r w2 where r: "resolve_urls E ms w1 = (r, w2)" by force
  show ?thesis
    using g p r
    by (cases h) (auto simp: get_midi_files_for_game_def url_game_name_eq url_system_name_eq Let_def)
qed

lemma execute_total: "\<exists>ds w'. execute E u d r w = (Inr ds, w')"
proof -
  obtain ms w1 where l: "get_midi_files_for_game E u w = (Inr ms, w1)"
    using get_midi_files_for_game_total by blast
  show ?thesis
  proof (cases "ms = []")
    case True
    with l show ?thesis by (simp add: execute_def)
  next
    case False
    with execute_listing [OF l False] download_files_total show ?thesis by simp
  qed
qed

section \<open>Failed files\<close>

text \<open>
  On the outcomes the source provides for (a request that returns a body or raises a
  \<^verbatim>\<open>RequestException\<close>, a save that succeeds or raises), the per-game download
  returns a list.  When the listing is empty the result is the empty list, after the
  message \<^verbatim>\<open>No MIDI files found for this game.\<close>  Otherwise the loop runs over all
  the listed files: a file that is fetched (resume off, or its path not on disk) and
  whose fetch returns no result, or whose save fails, adds nothing to the result, and
  the files after it are processed from the world its pass leaves; the result is the
  successes before it followed by the successes after it.
\<close>

lemma failed_file_dropped:
  "(\<exists>ds w'. execute E game_url output_dir resume w = (Inr ds, w'))
   \<and> (get_midi_files_for_game E game_url w = (Inr [], w1) \<longrightarrow>
        execute E game_url output_dir resume w
          = (Inr [], w1\<lparr>stdout := stdout w1 @ [''No MIDI files found for this game.'']\<rparr>))
   \<and> (get_midi_files_for_game E game_url w = (Inr (pre @ m # post), w1) \<and>
      download_files E output_dir resume pre [] (snd (create_directory E output_dir w1))
        = (Inr ds1, w2) \<and>
      filename m = Inr fname \<and>
      \<not> (resume \<and> file_exists (joinpath E output_dir fname) w2) \<and>
      (get E (midi_file.url m) w2 = (None, w3) \<or>
       (\<exists>c wf. get E (midi_file.url m) w2 = (Some c, wf) \<and> c \<noteq> [] \<and>
               save_file E c (joinpath E output_dir fname) wf = (False, w3)))
      \<longrightarrow> (\<exists>ds2 w4. download_files E output_dir resume post [] w3 = (Inr ds2, w4) \<and>
                     execute E game_url output_dir resume w = (Inr (ds1 @ ds2), w4)))"
proof (intro conjI impI)
  show "\<exists>ds w'. execute E game_url output_dir resume w = (Inr ds, w')"
    by (rule execute_total)
next
  assume "get_midi_files_for_game E game_url w = (Inr [], w1)"
  then show "execute E game_url output_dir resume w
          = (Inr [], w1\<lparr>stdout := stdout w1 @ [''No MIDI files found for this game.'']\<rparr>)"
    by (simp add: execute_def)
next
  assume a: "get_midi_files_for_game E game_url w = (Inr (pre @ m # post), w1) \<and>
      download_files E output_dir resume pre [] (snd (create_directory E output_dir w1))
        = (Inr ds1, w2) \<and>
      filename m = Inr fname \<and>
      \<not> (resume \<and> file_exists (joinpath E output_dir fname) w2) \<and>
      (get E (midi_file.url m) w2 = (None, w3) \<or>
       (\<exists>c wf. get E (midi_file.url m) w2 = (Some c, wf) \<and> c \<noteq> [] \<and>
               save_file E c (joinpath E output_dir fname) wf = (False, w3)))"
  then have one: "download_one E output_dir resume m w2 = (Inr None, w3)"
    by (auto simp: download_one_def Let_def)
  obtain ds2 w4 where b: "download_files E output_dir resume post [] w3 = (Inr ds2, w4)"
    using download_files_total by blast
  from a have l: "get_midi_files_for_game E game_url w = (Inr (pre @ m # post), w1)"
    and p: "download_files E output_dir resume pre [] (snd (create_directory E output_dir w1))
        = (Inr ds1, w2)"
    by simp_all
  have "execute E game_url output_dir resume w
          = download_files E output_dir resume (pre @ m # post) []
              (snd (create_directory E output_dir w1))"
    by (rule execute_listing [OF l]) simp
  also have "\<dots> = (Inr (ds1 @ ds2), w4)"
    using download_files_split [OF p one b] by simp
  finally show "\<exists>ds2 w4. download_files E output_dir resume post [] w3 = (Inr ds2, w4) \<and>
                     execute E game_url output_dir resume w = (Inr (ds1 @ ds2), w4)"
    using b by blast
qed

text \<open>
  On the example site: a game page that cannot be fetched lists nothing; and the first
  file of the game, whose download fails, is dropped while the second is processed.
\<close>

lemma failed_file_dropped_example:
  "fst (get_midi_files_for_game example_env ''https://www.khinsider.com/midi/nes/none/''
          example_world) = Inr []
   \<and> fst (execute example_env ''https://www.khinsider.com/midi/nes/none/'' ''out'' False
            example_world) = Inr []
   \<and> stdout (snd (execute example_env ''https://www.khinsider.com/midi/nes/none/'' ''out'' False
                    example_world))
       = [''Request failed for https://www.khinsider.com/midi/nes/none/: 404'',
          ''No MIDI files found for this game.'']
   \<and> fst (get_midi_files_for_game example_env ''https://www.khinsider.com/midi/nes/zelda/''
            example_world)
       = Inr ([] @ \<lparr>midi_file.name = ''Intro'', url = ''https://cdn.example/files/intro.mid'',
                      game_name = ''zelda'', system = ''nes'', size_bytes = 0, downloaded = False\<rparr>
               # [\<lparr>midi_file.name = ''Boss'', url = ''https://cdn.example/boss.mid'',
                      game_name = ''zelda'', system = ''nes'', size_bytes = 0, downloaded = False\<rparr>])
   \<and> fst (get example_env ''https://cdn.example/files/intro.mid''
            (snd (create_directory example_env ''out''
               (snd (get_midi_files_for_game example_env
                       ''https://www.khinsider.com/midi/nes/zelda/'' example_world))))) = None
   \<and> (\<exists>ds2 w3 w4.
         download_files example_env ''out'' False
           [\<lparr>midi_file.name = ''Boss'', url = ''https://cdn.example/boss.mid'',
              game_name = ''zelda'', system = ''nes'', size_bytes = 0, downloaded = False\<rparr>] [] w3
           = (Inr ds2, w4)
         \<and> execute example_env ''https://www.khinsider.com/midi/nes/zelda/'' ''out'' False
             example_world = (Inr ([] @ ds2), w4))"
proof -
  let ?n = "''https://www.khinsider.com/midi/nes/none/''"
  let ?u = "''https://www.khinsider.com/midi/nes/zelda/''"
  let ?i = "\<lparr>midi_file.name = ''Intro'', url = ''https://cdn.example/files/intro.mid'',
              game_name = ''zelda'', system = ''nes'', size_bytes = 0, downloaded = False\<rparr>"
  let ?b = "\<lparr>midi_file.name = ''Boss'', url = ''https://cdn.example/boss.mid'',
              game_name = ''zelda'', system = ''nes'', size_bytes = 0, downloaded = False\<rparr>"
  let ?wn = "snd (get_midi_files_for_game example_env ?n example_world)"
  let ?w1 = "snd (get_midi_files_for_game example_env ?u example_world)"
  let ?w2 = "snd (create_directory example_env ''out'' ?w1)"
  let ?w3 = "snd (get example_env (midi_file.url ?i) ?w2)"
  have n: "fst (get_midi_files_for_game example_env ?n example_world) = Inr []"
    by code_simp
  then have hn: "get_midi_files_for_game example_env ?n example_world = (Inr [], ?wn)"
    by (simp add: prod_eq_iff)
  have out: "stdout ?wn = [''Request failed for https://www.khinsider.com/midi/nes/none/: 404'']"
    by code_simp
  from failed_file_dropped [where E = example_env and game_url = ?n and output_dir = "''out''"
      and resume = False and w = example_world and ?w1.0 = ?wn] hn
  have en: "execute example_env ?n ''out'' False example_world
          = (Inr [], ?wn\<lparr>stdout := stdout ?wn @ [''No MIDI files found for this game.'']\<rparr>)"
    by blast
  have f: "fst (get_midi_files_for_game example_env ?u example_world) = Inr ([] @ ?i # [?b])"
    by code_simp
  then have h1: "get_midi_files_for_game example_env ?u example_world = (Inr ([] @ ?i # [?b]), ?w1)"
    by (simp add: prod_eq_iff)
  have h2: "download_files example_env ''out'' False [] [] ?w2 = (Inr [], ?w2)" by simp
  have h3: "filename ?i = Inr ''intro.mid''" by code_simp
  have g: "fst (get example_env ''https://cdn.example/files/intro.mid'' ?w2) = None"
    by code_simp
  then have h4: "get example_env (midi_file.url ?i) ?w2 = (None, ?w3)"
    by (simp add: prod_eq_iff)
  from failed_file_dropped [where E = example_env and game_url = ?u and output_dir = "''out''"
      and resume = False and w = example_world and pre = "[]" and m = ?i and post = "[?b]"
      and ?w1.0 = ?w1 and ?ds1.0 = "[]" and ?w2.0 = ?w2 and fname = "''intro.mid''"
      and ?w3.0 = ?w3] h1 h2 h3 h4
  have "\<exists>ds2 w4. download_files example_env ''out'' False [?b] [] ?w3 = (Inr ds2, w4) \<and>
          execute example_env ?u ''out'' False example_world = (Inr ([] @ ds2), w4)"
    by blast
  then have last: "\<exists>ds2 w3 w4. download_files example_env ''out'' False [?b] [] w3 = (Inr ds2, w4) \<and>
          execute example_env ?u ''out'' False example_world = (Inr ([] @ ds2), w4)"
    by blast
  have e1: "fst (execute example_env ?n ''out'' False example_world) = Inr []"
    using en by simp
  have e2: "stdout (snd (execute example_env ?n ''out'' False example_world))
       = [''Request failed for https://www.khinsider.com/midi/nes/none/: 404'',
          ''No MIDI files found for this game.'']"
    using en out by simp
  from n e1 e2 f g last show ?thesis by blast
qed

section \<open>Empty bodies\<close>

text \<open>
  C10.  A request the site answers with a body of zero bytes looks like a failed one
  from outside the client: \<^verbatim>\<open>get\<close> returns the empty bytes, \<^verbatim>\<open>get_text\<close>
  returns None as it does after a \<^verbatim>\<open>RequestException\<close>, and the download loop
  treats the empty content as no content: the file adds nothing to the result and
  nothing is saved, the only trace of its pass being the request in the client's log.
\<close>

theorem empty_body_is_failure:
  "(session_get E w u = Content [] \<longrightarrow>
      get E u w = (Some [], w\<lparr>requests := requests w @ [u]\<rparr>) \<and>
      get_text E u w = (None, w\<lparr>requests := requests w @ [u]\<rparr>))
   \<and> (session_get E w u = RequestException e \<longrightarrow> fst (get_text E u w) = None)
   \<and> (get_midi_files_for_game E game_url w = (Inr (pre @ m # post), w1) \<and>
      download_files E output_dir resume pre [] (snd (create_directory E output_dir w1))
        = (Inr ds1, w2) \<and>
      filename m = Inr fname \<and>
      \<not> (resume \<and> file_exists (joinpath E output_dir fname) w2) \<and>
      session_get E w2 (midi_file.url m) = Content []
      \<longrightarrow> (\<exists>ds2 w4.
             download_files E output_dir resume post []
               (w2\<lparr>requests := requests w2 @ [midi_file.url m]\<rparr>) = (Inr ds2, w4) \<and>
             execute E game_url output_dir resume w = (Inr (ds1 @ ds2), w4)))"
proof (intro conjI impI)
  assume "session_get E w u = Content []"
  then show "get E u w = (Some [], w\<lparr>requests := requests w @ [u]\<rparr>)"
    and "get_text E u w = (None, w\<lparr>requests := requests w @ [u]\<rparr>)"
    by (simp_all add: get_text_def get_def)
next
  assume "session_get E w u = RequestException e"
  then show "fst (get_text E u w) = None"
    by (simp add: get_text_def get_def)
next
  let ?w3 = "w2\<lparr>requests := requests w2 @ [midi_file.url m]\<rparr>"
  assume a: "get_midi_files_for_game E game_url w = (Inr (pre @ m # post), w1) \<and>
      download_files E output_dir resume pre [] (snd (create_directory E output_dir w1))
        = (Inr ds1, w2) \<and>
      filename m = Inr fname \<and>
      \<not> (resume \<and> file_exists (joinpath E output_dir fname) w2) \<and>
      session_get E w2 (midi_file.url m) = Content []"
  then have one: "download_one E output_dir resume m w2 = (Inr None, ?w3)"
    by (auto simp: download_one_def get_def Let_def)
  obtain ds2 w4 where b: "download_files E output_dir resume post [] ?w3 = (Inr ds2, w4)"
    using download_files_total by blast
  from a have l: "get_midi_files_for_game E game_url w = (Inr (pre @ m # post), w1)"
    and p: "download_files E output_dir resume pre [] (snd (create_directory E output_dir w1))
        = (Inr ds1, w2)"
    by simp_all
  have "execute E game_url output_dir resume w
          = download_files E output_dir resume (pre @ m # post) []
              (snd (create_directory E output_dir w1))"
    by (rule execute_listing [OF l]) simp
  also have "\<dots> = (Inr (ds1 @ ds2), w4)"
    using download_files_split [OF p one b] by simp
  finally show "\<exists>ds2 w4. download_files E output_dir resume post [] ?w3 = (Inr ds2, w4) \<and>
                     execute E game_url output_dir resume w = (Inr (ds1 @ ds2), w4)"
    using b by blast
qed

text \<open>
  A failed request on the example site, and the site that sends empty bodies after the
  listing: the first file is dropped and the disk is still empty when the second is
  processed.
\<close>

theorem empty_body_is_failure_witness:
  "session_get example_env example_world ''https://www.khinsider.com/midi/nes/none/''
     = RequestException ''404''
   \<and> fst (get_text example_env ''https://www.khinsider.com/midi/nes/none/'' example_world) = None
   \<and> fst (get_midi_files_for_game empty_body_env ''https://www.khinsider.com/midi/nes/zelda/''
            example_world)
       = Inr ([] @ \<lparr>midi_file.name = ''Intro'',
                      url = ''https://www.khinsider.com/midi/nes/zelda/intro.mid'',
                      game_name = ''zelda'', system = ''nes'', size_bytes = 0, downloaded = False\<rparr>
               # [\<lparr>midi_file.name = ''Boss'', url = ''https://cdn.example/boss.mid'',
                      game_name = ''zelda'', system = ''nes'', size_bytes = 0, downloaded = False\<rparr>])
   \<and> session_get empty_body_env
         (snd (create_directory empty_body_env ''out''
            (snd (get_midi_files_for_game empty_body_env
                    ''https://www.khinsider.com/midi/nes/zelda/'' example_world))))
         ''https://www.khinsider.com/midi/nes/zelda/intro.mid'' = Content []
   \<and> fst (get_text empty_body_env ''https://www.khinsider.com/midi/nes/zelda/intro.mid''
         (snd (create_directory empty_body_env ''out''
            (snd (get_midi_files_for_game empty_body_env
                    ''https://www.khinsider.com/midi/nes/zelda/'' example_world))))) = None
   \<and> (\<exists>ds2 w3 w4.
         download_files empty_body_env ''out'' False
           [\<lparr>midi_file.name = ''Boss'', url = ''https://cdn.example/boss.mid'',
              game_name = ''zelda'', system = ''nes'', size_bytes = 0, downloaded = False\<rparr>] [] w3
           = (Inr ds2, w4)
         \<and> files w3 = Map.empty
         \<and> execute empty_body_env ''https://www.khinsider.com/midi/nes/zelda/'' ''out'' False
             example_world = (Inr ([] @ ds2), w4))"
proof -
  let ?n = "''https://www.khinsider.com/midi/nes/none/''"
  let ?u = "''https://www.khinsider.com/midi/nes/zelda/''"
  let ?i = "\<lparr>midi_file.name = ''Intro'', url = ''https://www.khinsider.com/midi/nes/zelda/intro.mid'',
              game_name = ''zelda'', system = ''nes'', size_bytes = 0, downloaded = False\<rparr>"
  let ?b = "\<lparr>midi_file.name = ''Boss'', url = ''https://cdn.example/boss.mid'',
              game_name = ''zelda'', system = ''nes'', size_bytes = 0, downloaded = False\<rparr>"
  let ?w1 = "snd (get_midi_files_for_game empty_body_env ?u example_world)"
  let ?w2 = "snd (create_directory empty_body_env ''out'' ?w1)"
  let ?w3 = "?w2\<lparr>requests := requests ?w2 @ [midi_file.url ?i]\<rparr>"
  have n: "session_get example_env example_world ?n = RequestException ''404''"
    by code_simp
  with empty_body_is_failure [where E = example_env and w = example_world and u = ?n
      and e = "''404''"]
  have n': "fst (get_text example_env ?n example_world) = None"
    by blast
  have f: "fst (get_midi_files_for_game empty_body_env ?u example_world) = Inr ([] @ ?i # [?b])"
    by code_simp
  then have h1: "get_midi_files_for_game empty_body_env ?u example_world
                   = (Inr ([] @ ?i # [?b]), ?w1)"
    by (simp add: prod_eq_iff)
  have h2: "download_files empty_body_env ''out'' False [] [] ?w2 = (Inr [], ?w2)" by simp
  have h3: "filename ?i = Inr ''intro.mid''" by code_simp
  have h4: "session_get empty_body_env ?w2 ''https://www.khinsider.com/midi/nes/zelda/intro.mid''
              = Content []"
    by code_simp
  then have h4': "session_get empty_body_env ?w2 (midi_file.url ?i) = Content []" by simp
  note inst = empty_body_is_failure [where E = empty_body_env and game_url = ?u
      and output_dir = "''out''" and resume = False and w = ?w2 and pre = "[]" and m = ?i
      and post = "[?b]" and ?w1.0 = ?w1 and ?ds1.0 = "[]" and ?w2.0 = ?w2
      and fname = "''intro.mid''" and u = "''https://www.khinsider.com/midi/nes/zelda/intro.mid''"]
  from inst h4
  have t: "fst (get_text empty_body_env ''https://www.khinsider.com/midi/nes/zelda/intro.mid'' ?w2)
             = None"
    by simp
  have fs: "files ?w3 = Map.empty"
    using get_midi_files_for_game_files [OF h1]
    by (simp add: create_directory_files example_world_def)
  from empty_body_is_failure [where E = empty_body_env and game_url = ?u
      and output_dir = "''out''" and resume = False and w = example_world and pre = "[]" and m = ?i
      and post = "[?b]" and ?w1.0 = ?w1 and ?ds1.0 = "[]" and ?w2.0 = ?w2
      and fname = "''intro.mid''"] h1 h2 h3 h4'
  have "\<exists>ds2 w4. download_files empty_body_env ''out'' False [?b] [] ?w3 = (Inr ds2, w4) \<and>
          execute empty_body_env ?u ''out'' False example_world = (Inr ([] @ ds2), w4)"
    by blast
  with fs have last: "\<exists>ds2 w3 w4. download_files empty_body_env ''out'' False [?b] [] w3 = (Inr ds2, w4) \<and>
          files w3 = Map.empty \<and>
          execute empty_body_env ?u ''out'' False example_world = (Inr ([] @ ds2), w4)"
    by blast
  from n n' f h4 t last show ?thesis by blast
qed

section \<open>The listings, row by row\<close>

lemma two_cells:
  "length cells \<ge> 2 \<Longrightarrow> \<exists>c c' cs. cells = c # c' # cs"
  by (cases cells; cases "tl cells") auto

lemma game_rows_eq:
  "game_rows s rows acc = Inr (acc @ List.map_filter (game_of_row s) rows)"
proof (induction rows arbitrary: acc)
  case Nil
  then show ?case by simp
next
  case (Cons row rows)
  show ?case
  proof (cases "length (find_all ''td'' row) \<ge> 2")
    case True
    then obtain c c' cs where cells: "find_all ''td'' row = c # c' # cs"
      using two_cells by blast
    then show ?thesis
      by (cases "find_tag ''a'' c")
         (simp_all add: Cons.IH Let_def index_def game_of_row_def row_anchor_def)
  next
    case False
    then have "row_anchor row = None"
      by (auto simp: row_anchor_def split: list.splits)
    with False show ?thesis
      by (simp add: Cons.IH Let_def game_of_row_def)
  qed
qed

lemma midi_rows_eq:
  "midi_rows g s rows acc = Inr (acc @ List.map_filter (midi_of_row g s) rows)"
proof (induction rows arbitrary: acc)
  case Nil
  then show ?case by simp
next
  case (Cons row rows)
  show ?case
  proof (cases "length (find_all ''td'' row) \<ge> 2")
    case True
    then obtain c c' cs where cells: "find_all ''td'' row = c # c' # cs"
      using two_cells by blast
    then show ?thesis
      by (cases "find_tag ''a'' c")
         (simp_all add: Cons.IH Let_def index_def midi_of_row_def row_anchor_def
            normalize_url_def)
  next
    case False
    then have "row_anchor row = None"
      by (auto simp: row_anchor_def split: list.splits)
    with False show ?thesis
      by (simp add: Cons.IH Let_def midi_of_row_def)
  qed
qed

text \<open>
  C3.  \<^verbatim>\<open>parse_game_list\<close> takes the first table of the document, leaves out its first
  row and returns, in row order, the Game of every other row that has at least two
  cells and an anchor in the first one, named by the stripped text of the anchor and
  with the URL taken from its href.  \<^verbatim>\<open>parse_midi_list\<close> does the same over all the
  rows of the first table, and keeps a row only when its resolved URL contains
  \<^verbatim>\<open>.mid\<close>.  Without a table both return the empty list.
\<close>

theorem listings_row_by_row:
  "parse_game_list B html system_name =
     Inr (case find_tag ''table'' (B html) of
            None \<Rightarrow> []
          | Some table \<Rightarrow>
              List.map_filter (game_of_row system_name) (drop 1 (find_all ''tr'' table)))
   \<and> parse_midi_list B html gname system_name =
     Inr (case find_tag ''table'' (B html) of
            None \<Rightarrow> []
          | Some table \<Rightarrow>
              List.map_filter (midi_of_row gname system_name) (find_all ''tr'' table))"
  by (simp add: parse_game_list_def parse_midi_list_def Let_def game_rows_eq midi_rows_eq
      split: option.splits)

text \<open>
  The listing of the example site read as a game list (the header row is left out) and
  as a file list (the row without \<^verbatim>\<open>.mid\<close> is left out).
\<close>

theorem listings_row_by_row_witness:
  "parse_game_list (BeautifulSoup example_env) ''L'' ''nes''
     = Inr [\<lparr>game.name = ''Intro'', url = ''https://www.khinsider.com/midi/nes/zelda/intro.mid'',
              system = ''nes'', midi_files = []\<rparr>,
            \<lparr>game.name = ''Boss'', url = ''https://www.khinsider.com//cdn.example/boss.mid'',
              system = ''nes'', midi_files = []\<rparr>,
            \<lparr>game.name = ''Notes'', url = ''https://www.khinsider.com/midi/nes/zelda/readme'',
              system = ''nes'', midi_files = []\<rparr>]
   \<and> parse_midi_list (BeautifulSoup example_env) ''L'' ''zelda'' ''nes''
     = Inr [\<lparr>midi_file.name = ''Intro'', url = ''https://www.khinsider.com/midi/nes/zelda/intro.mid'',
              game_name = ''zelda'', system = ''nes'', size_bytes = 0, downloaded = False\<rparr>,
            \<lparr>midi_file.name = ''Boss'', url = ''https://cdn.example/boss.mid'',
              game_name = ''zelda'', system = ''nes'', size_bytes = 0, downloaded = False\<rparr>]"
proof -
  have t: "find_tag ''table'' (BeautifulSoup example_env ''L'')
             = Some (hd (find_all ''table'' example_listing))"
    by code_simp
  have g: "List.map_filter (game_of_row ''nes'')
             (drop 1 (find_all ''tr'' (hd (find_all ''table'' example_listing))))
     = [\<lparr>game.name = ''Intro'', url = ''https://www.khinsider.com/midi/nes/zelda/intro.mid'',
              system = ''nes'', midi_files = []\<rparr>,
            \<lparr>game.name = ''Boss'', url = ''https://www.khinsider.com//cdn.example/boss.mid'',
              system = ''nes'', midi_files = []\<rparr>,
            \<lparr>game.name = ''Notes'', url = ''https://www.khinsider.com/midi/nes/zelda/readme'',
              system = ''nes'', midi_files = []\<rparr>]"
    by code_simp
  have m: "List.map_filter (midi_of_row ''zelda'' ''nes'')
             (find_all ''tr'' (hd (find_all ''table'' example_listing)))
     = [\<lparr>midi_file.name = ''Intro'', url = ''https://www.khinsider.com/midi/nes/zelda/intro.mid'',
              game_name = ''zelda'', system = ''nes'', size_bytes = 0, downloaded = False\<rparr>,
            \<lparr>midi_file.name = ''Boss'', url = ''https://cdn.example/boss.mid'',
              game_name = ''zelda'', system = ''nes'', size_bytes = 0, downloaded = False\<rparr>]"
    by code_simp
  from listings_row_by_row [of "BeautifulSoup example_env" "''L''" "''nes''" "''zelda''"]
  show ?thesis by (simp only: t option.case g m)
qed

section \<open>URL normalisation\<close>

text \<open>The three examples of the specification.\<close>

lemma normalize_url_examples:
  "normalize_url ''//x/y.mid'' = ''https://x/y.mid''"
  "normalize_url ''/x/y.mid'' = ''https://www.khinsider.com/x/y.mid''"
  "normalize_url ''https://a/b.mid'' = ''https://a/b.mid''"
  by (simp_all add: normalize_url_def str_startswith_def)

text \<open>
  C1.  The three parsers do not share the one rule.  \<^verbatim>\<open>parse_midi_list\<close> applies it
  (\<^verbatim>\<open>midi_rows_eq\<close>).  \<^verbatim>\<open>parse_game_list\<close> has no branch for a leading
  \<^verbatim>\<open>//\<close>: the href \<^verbatim>\<open>//x/y.mid\<close> starts with a slash and gets the site put before
  it.  \<^verbatim>\<open>parse_midi_download_url\<close> has no branch for a single leading slash: the
  href \<^verbatim>\<open>/x/y.mid\<close> is returned as it is.
\<close>

theorem normalisation_differs:
  "parse_game_list (\<lambda>h. protocol_relative_listing) [] ''nes''
     = Inr [\<lparr>game.name = ''G'', url = ''https://www.khinsider.com//x/y.mid'',
              system = ''nes'', midi_files = []\<rparr>]
   \<and> normalize_url ''//x/y.mid'' = ''https://x/y.mid''
   \<and> parse_midi_download_url (\<lambda>h. site_relative_detail) [] = Some ''/x/y.mid''
   \<and> normalize_url ''/x/y.mid'' = ''https://www.khinsider.com/x/y.mid''"
  by code_simp

section \<open>The requests of a listing\<close>

lemma get_requests: "get E u w = (x, w') \<Longrightarrow> requests w' = requests w @ [u]"
  by (auto simp: get_def Let_def split: http_outcome.splits)

lemma get_text_requests: "get_text E u w = (x, w') \<Longrightarrow> requests w' = requests w @ [u]"
  by (auto simp: get_text_def split: prod.splits option.splits if_splits dest: get_requests)

lemma resolve_urls_requests:
  "resolve_urls E ms w = (ms', w') \<Longrightarrow> requests w' = requests w @ map midi_file.url ms"
proof (induction ms arbitrary: w ms' w')
  case Nil
  then show ?case by simp
next
  case (Cons m ms)
  obtain h w1 where g: "get_text E (midi_file.url m) w = (h, w1)" by force
  obtain r w2 where r: "resolve_urls E ms w1 = (r, w2)" by force
  from Cons.prems g r have "w' = w2" by (simp add: Let_def)
  with Cons.IH [OF r] get_text_requests [OF g] show ?case by simp
qed

text \<open>
  Listing the files of a game costs one request for the game page and one for each
  file returned: file count plus one.
\<close>

lemma listing_request_count:
  assumes "get_midi_files_for_game E game_url w = (Inr ms, w')"
  shows "length (requests w') = length (requests w) + length ms + 1"
proof -
  obtain h w1 where g: "get_text E game_url w = (h, w1)" by force
  have r1: "requests w1 = requests w @ [game_url]" by (rule get_text_requests [OF g])
  show ?thesis
  proof (cases "h = None \<or> h = Some []")
    case True
    with assms g have "ms = []" "w' = w1"
      by (auto simp: get_midi_files_for_game_def)
    with r1 show ?thesis by simp
  next
    case False
    then obtain html where h: "h = Some html" "html \<noteq> []" by auto
    with assms g obtain ml where r: "resolve_urls E ml w1 = (ms, w')"
      by (auto simp: get_midi_files_for_game_def Let_def split: sum.splits prod.splits)
    from resolve_urls_requests [OF r] length_resolve_urls [OF r] r1 show ?thesis by simp
  qed
qed

text \<open>On the example site: two files, three requests.\<close>

lemma listing_request_count_example:
  "fst (get_midi_files_for_game example_env ''https://www.khinsider.com/midi/nes/zelda/''
          example_world)
     = Inr [\<lparr>midi_file.name = ''Intro'', url = ''https://cdn.example/files/intro.mid'',
              game_name = ''zelda'', system = ''nes'', size_bytes = 0, downloaded = False\<rparr>,
            \<lparr>midi_file.name = ''Boss'', url = ''https://cdn.example/boss.mid'',
              game_name = ''zelda'', system = ''nes'', size_bytes = 0, downloaded = False\<rparr>]
   \<and> length (requests (snd (get_midi_files_for_game example_env
                  ''https://www.khinsider.com/midi/nes/zelda/'' example_world))) = 3"
proof -
  let ?u = "''https://www.khinsider.com/midi/nes/zelda/''"
  let ?i = "\<lparr>midi_file.name = ''Intro'', url = ''https://cdn.example/files/intro.mid'',
              game_name = ''zelda'', system = ''nes'', size_bytes = 0, downloaded = False\<rparr>"
  let ?m = "\<lparr>midi_file.name = ''Boss'', url = ''https://cdn.example/boss.mid'',
              game_name = ''zelda'', system = ''nes'', size_bytes = 0, downloaded = False\<rparr>"
  have ev: "fst (get_midi_files_for_game example_env ?u example_world) = Inr [?i, ?m]"
    by code_simp
  then have h: "get_midi_files_for_game example_env ?u example_world
                  = (Inr [?i, ?m], snd (get_midi_files_for_game example_env ?u example_world))"
    by (simp add: prod_eq_iff)
  from listing_request_count [OF h] ev show ?thesis
    by (simp add: example_world_def)
qed

section \<open>The frames of \<^verbatim>\<open>Tag.string\<close>\<close>


lemma string_depth_nonzero: "string_depth t \<noteq> 0"
  by (induction t rule: string_depth.induct) auto

lemma tag_string_exn_within:
  "string_depth t \<le> k \<Longrightarrow> tag_string_exn k t = Inr (tag_string t)"
  by (induction k t rule: tag_string_exn.induct) (auto simp: string_depth_nonzero)

lemma tag_string_exn_beyond:
  "k < string_depth t \<Longrightarrow> tag_string_exn k t = Inl RecursionError"
  by (induction k t rule: tag_string_exn.induct) auto

lemma find_string_exn_within:
  "\<forall>x\<in>set xs. string_depth x \<le> k \<Longrightarrow>
   find_string_exn k f xs =
     Inr (case filter (\<lambda>x. f (tag_string x)) xs of [] \<Rightarrow> None | x # _ \<Rightarrow> Some x)"
  by (induction xs) (auto simp: tag_string_exn_within)

lemma parse_midi_download_url_exn_within:
  assumes "\<not> rejected F html"
    and "\<forall>x\<in>set (find_all ''a'' (B html)). string_depth x \<le> recursion_limit F"
  shows "parse_midi_download_url_exn F B html = Inr (parse_midi_download_url B html)"
  using assms
  by (simp add: parse_midi_download_url_exn_def parse_midi_download_url_def find_string_def
      find_string_exn_within Let_def split: list.splits)

lemma string_depth_nested:
  "string_depth (Tag n a [nested k (NavigableString s)]) = Suc k"
  by (induction k arbitrary: n a) (simp_all add: nested_def)

section \<open>The parsers on any page\<close>

text \<open>
  C7.  The parsers do raise on some page texts: the HTML parser rejects the text
  \<^verbatim>\<open><![x]\<close> and its exception leaves all three, and \<^verbatim>\<open>parse_midi_download_url\<close>
  fails with a \<^verbatim>\<open>RecursionError\<close> on an anchor that nests a thousand tags.  What
  holds is the claim for the markup the parser accepts: \<^verbatim>\<open>parse_game_list\<close> and
  \<^verbatim>\<open>parse_midi_list\<close> then return a list and never raise (the one index they use is
  guarded by the count of cells), the empty list when the page has no table; and
  \<^verbatim>\<open>parse_midi_download_url\<close> returns a URL or None, None exactly when no anchor
  carries the download text, provided no anchor of the page nests tags deeper than the
  frames left for \<^verbatim>\<open>Tag.string\<close>.
\<close>

theorem parsers_return_on_accepted_markup:
  assumes "\<not> rejected F html"
  shows "(\<exists>gs. parse_game_list_exn F B html system_name = Inr gs)
   \<and> (\<exists>ms. parse_midi_list_exn F B html gname system_name = Inr ms)
   \<and> (find_tag ''table'' (B html) = None \<longrightarrow>
        parse_game_list_exn F B html system_name = Inr [] \<and>
        parse_midi_list_exn F B html gname system_name = Inr [])
   \<and> ((\<forall>x\<in>set (find_all ''a'' (B html)). string_depth x \<le> recursion_limit F) \<longrightarrow>
        (\<exists>r. parse_midi_download_url_exn F B html = Inr r \<and>
             (r = None) = (find_string ''a'' download_text (B html) = None)))"
proof (intro conjI impI)
  show "\<exists>gs. parse_game_list_exn F B html system_name = Inr gs"
    using assms parse_game_list_total by (simp add: parse_game_list_exn_def)
  show "\<exists>ms. parse_midi_list_exn F B html gname system_name = Inr ms"
    using assms parse_midi_list_total by (simp add: parse_midi_list_exn_def)
next
  assume "find_tag ''table'' (B html) = None"
  then show "parse_game_list_exn F B html system_name = Inr []"
    and "parse_midi_list_exn F B html gname system_name = Inr []"
    using assms
    by (simp_all add: parse_game_list_exn_def parse_midi_list_exn_def
        parse_game_list_def parse_midi_list_def)
next
  assume "\<forall>x\<in>set (find_all ''a'' (B html)). string_depth x \<le> recursion_limit F"
  then have "parse_midi_download_url_exn F B html = Inr (parse_midi_download_url B html)"
    by (rule parse_midi_download_url_exn_within [OF assms])
  moreover have "(parse_midi_download_url B html = None)
                   = (find_string ''a'' download_text (B html) = None)"
    by (simp add: parse_midi_download_url_def Let_def split: option.splits)
  ultimately show "\<exists>r. parse_midi_download_url_exn F B html = Inr r \<and>
             (r = None) = (find_string ''a'' download_text (B html) = None)"
    by simp
qed

text \<open>
  The detail page of the example site: accepted markup, no table, one download anchor.
\<close>

theorem parsers_return_on_accepted_markup_witness:
  "\<not> rejected library_faults ''D''
   \<and> find_tag ''table'' (BeautifulSoup example_env ''D'') = None
   \<and> parse_game_list_exn library_faults (BeautifulSoup example_env) ''D'' ''nes'' = Inr []
   \<and> parse_midi_list_exn library_faults (BeautifulSoup example_env) ''D'' ''zelda'' ''nes'' = Inr []
   \<and> list_all (\<lambda>x. string_depth x \<le> recursion_limit library_faults)
        (find_all ''a'' (BeautifulSoup example_env ''D''))
   \<and> (\<exists>r. parse_midi_download_url_exn library_faults (BeautifulSoup example_env) ''D'' = Inr r
          \<and> r \<noteq> None)"
proof -
  have a: "\<not> rejected library_faults ''D''" by code_simp
  have t: "find_tag ''table'' (BeautifulSoup example_env ''D'') = None" by code_simp
  have d: "list_all (\<lambda>x. string_depth x \<le> recursion_limit library_faults)
             (find_all ''a'' (BeautifulSoup example_env ''D''))"
    by code_simp
  then have d': "\<forall>x\<in>set (find_all ''a'' (BeautifulSoup example_env ''D'')).
                   string_depth x \<le> recursion_limit library_faults"
    by (simp add: list_all_iff)
  have s: "find_string ''a'' download_text (BeautifulSoup example_env ''D'') \<noteq> None"
    by code_simp
  from parsers_return_on_accepted_markup [OF a, of "BeautifulSoup example_env" "''nes''" "''zelda''"]
    t d' s
  have "parse_game_list_exn library_faults (BeautifulSoup example_env) ''D'' ''nes'' = Inr []"
    and "parse_midi_list_exn library_faults (BeautifulSoup example_env) ''D'' ''zelda'' ''nes''
           = Inr []"
    and "\<exists>r. parse_midi_download_url_exn library_faults (BeautifulSoup example_env) ''D'' = Inr r
          \<and> r \<noteq> None"
    by blast+
  with a t d show ?thesis by blast
qed

text \<open>
  The claim as it stands fails on the rejected text, for the three parsers, and on the
  deeply nested anchor.
\<close>

theorem parsers_raise_counterexample:
  "parse_game_list_exn library_faults (BeautifulSoup example_env) ''<![x]'' ''nes''
     = Inl ParserRejectedMarkup
   \<and> parse_midi_list_exn library_faults (BeautifulSoup example_env) ''<![x]'' ''zelda'' ''nes''
     = Inl ParserRejectedMarkup
   \<and> parse_midi_download_url_exn library_faults (BeautifulSoup example_env) ''<![x]''
     = Inl ParserRejectedMarkup
   \<and> parse_midi_download_url_exn library_faults (\<lambda>h. deep_anchor_page) ''N''
     = Inl RecursionError"
proof -
  have r: "rejected library_faults ''<![x]''" by code_simp
  have n: "\<not> rejected library_faults ''N''" by code_simp
  have l: "recursion_limit library_faults = 1000" by (simp add: library_faults_def)
  have "tag_string_exn 1000 (Tag ''a'' [(''href'', ''//cdn.example/x.mid'')]
          [nested 1000 (NavigableString ''Click here to download'')]) = Inl RecursionError"
    by (rule tag_string_exn_beyond) (simp add: string_depth_nested)
  then have "parse_midi_download_url_exn library_faults (\<lambda>h. deep_anchor_page) ''N''
     = Inl RecursionError"
    using n l
    by (simp add: parse_midi_download_url_exn_def deep_anchor_page_def find_all_def Let_def)
  with r show ?thesis
    by (simp add: parse_game_list_exn_def parse_midi_list_exn_def parse_midi_download_url_exn_def)
qed


section \<open>Without faults\<close>

text \<open>Without faults the definitions with exceptions are the ones without.\<close>

lemma get_exn_fault_free:
  "fault_free F E \<Longrightarrow> get_exn F E u w = (Inr (fst (get E u w)), snd (get E u w))"
  by (simp add: fault_free_def get_exn_def split_beta)

lemma get_text_exn_fault_free:
  "fault_free F E \<Longrightarrow>
   get_text_exn F E u w = (Inr (fst (get_text E u w)), snd (get_text E u w))"
  by (simp add: get_text_exn_def get_text_def get_exn_fault_free split: prod.splits option.splits)

lemma parse_midi_download_url_exn_fault_free:
  "fault_free F E \<Longrightarrow>
   parse_midi_download_url_exn F (BeautifulSoup E) h
     = Inr (parse_midi_download_url (BeautifulSoup E) h)"
  by (rule parse_midi_download_url_exn_within) (simp_all add: fault_free_def)

lemma resolve_urls_exn_fault_free:
  "fault_free F E \<Longrightarrow>
   resolve_urls_exn F E ms w = (Inr (fst (resolve_urls E ms w)), snd (resolve_urls E ms w))"
proof (induction ms arbitrary: w)
  case Nil
  then show ?case by simp
next
  case (Cons m ms)
  then show ?case
    by (simp add: get_text_exn_fault_free parse_midi_download_url_exn_fault_free Let_def
        split_beta split: option.splits)
qed

lemma get_midi_files_for_game_exn_fault_free:
  "fault_free F E \<Longrightarrow> get_midi_files_for_game_exn F E u w = get_midi_files_for_game E u w"
  by (simp add: get_midi_files_for_game_exn_def get_midi_files_for_game_def
      get_text_exn_fault_free resolve_urls_exn_fault_free parse_midi_list_exn_def
      fault_free_def [THEN iffD1, THEN conjunct1] split_beta Let_def
      split: option.splits sum.splits)

lemma download_files_exn_fault_free:
  "fault_free F E \<Longrightarrow>
   download_files_exn F E d r ms acc w = download_files E d r ms acc w"
proof (induction ms arbitrary: acc w r)
  case Nil
  then show ?case by simp
next
  case (Cons m ms)
  note IH = Cons.IH [OF Cons.prems]
  from Cons.prems have e: "exists_raises F w' p = None" for w' p
    by (simp add: fault_free_def)
  show ?case
    by (cases r)
       (simp_all add: IH get_exn_fault_free [OF Cons.prems] file_exists_exn_def e Let_def
          split_beta split: sum.splits option.splits bool.splits)
qed

lemma execute_exn_fault_free:
  "fault_free F E \<Longrightarrow> execute_exn F E u d r w = execute E u d r w"
  by (simp add: execute_exn_def execute_def get_midi_files_for_game_exn_fault_free
      download_files_exn_fault_free split_beta split: prod.splits sum.splits)

lemma fault_free_example: "fault_free no_faults example_env"
proof -
  have "\<forall>x\<in>set (find_all ''a'' example_listing). string_depth x \<le> 1000"
    using list_all_iff [of "\<lambda>x. string_depth x \<le> 1000" "find_all ''a'' example_listing"]
    by code_simp
  moreover have "\<forall>x\<in>set (find_all ''a'' example_detail). string_depth x \<le> 1000"
    using list_all_iff [of "\<lambda>x. string_depth x \<le> 1000" "find_all ''a'' example_detail"]
    by code_simp
  ultimately show ?thesis
    by (simp add: fault_free_def no_faults_def example_env_def)
qed

text \<open>
  So on a site and a disk where the libraries raise nothing, the per-game download
  returns a list.
\<close>

lemma execute_exn_returns_fault_free:
  "fault_free F E \<Longrightarrow> \<exists>ds w'. execute_exn F E u d r w = (Inr ds, w')"
  by (simp add: execute_exn_fault_free execute_total)

section \<open>Exceptions that leave the download\<close>

text \<open>
  C6.  A fetch that fails with an exception that is no \<^verbatim>\<open>RequestException\<close> is not
  caught by \<^verbatim>\<open>get\<close>, whose docstring promises None on failure and whose siblings
  \<^verbatim>\<open>save_file\<close> and \<^verbatim>\<open>create_directory\<close> catch every exception: the file is not
  dropped, the loop does not go on and the exception leaves \<^verbatim>\<open>execute\<close>.  With the
  file on the long-labelled host first in the list, the loop ends with
  \<^verbatim>\<open>LocationParseError\<close> after that one request and the second file is never asked
  for; listed on a game page, the same file ends \<^verbatim>\<open>execute\<close> with the error.  In
  resume mode \<^verbatim>\<open>file_exists\<close> lets the error of the file system through before any
  request is made.
\<close>

theorem uncaught_exception_aborts_batch:
  "fst (download_files_exn library_faults example_env ''out'' False
          [long_label_file, intro_file] [] example_world) = Inl LocationParseError
   \<and> requests (snd (download_files_exn library_faults example_env ''out'' False
                      [long_label_file, intro_file] [] example_world)) = [long_label_url]
   \<and> fst (execute_exn library_faults long_label_env
            ''https://www.khinsider.com/midi/nes/zelda/'' ''out'' False example_world)
       = Inl LocationParseError
   \<and> fst (download_files_exn library_faults example_env ''out'' True
            [long_name_file, intro_file] [] example_world) = Inl OSError
   \<and> requests (snd (download_files_exn library_faults example_env ''out'' True
                      [long_name_file, intro_file] [] example_world)) = []"
  by code_simp

end
